theory Spec2Isabelle
  imports Complex_Main "HOL-Library.AList" "HOL-Library.Sublist"
begin

section \<open>Python values, dictionaries and errors\<close>

text \<open>
  \<^verbatim>\<open>runMOFA(data, data_opts, model_opts, train_opts, seed=None)\<close> of
  \<^verbatim>\<open>mofa/core/build_model.py\<close> receives three option dictionaries. Their values are
  modelled by \<open>pyval\<close>; a dictionary is an association list read through \<open>map_of\<close>.
  Numbers of the sparsity array are reals: the rounding of floating point and NaN are
  outside the model.
\<close>

datatype pyval =
    PNone
  | PBool bool
  | PInt int
  | PReal real
  | PStr string
  | PList "pyval list"
  | PDict "(string \<times> pyval) list"

text \<open>
  Every exception that can leave \<open>runMOFA\<close>: the ones Python raises on the function's own
  expressions, and \<open>Raised\<close> for an exception that comes out of a collaborator (the
  operating system, \<open>maskData\<close>, \<open>initModel\<close>, a node, \<open>BayesNet\<close>, \<open>saveModel\<close>).
\<close>

datatype error = KeyError string | IndexError | TypeError | Raised string

text \<open>\<^verbatim>\<open>d[k]\<close> with a string key: only a dictionary can be read so.\<close>

fun getitem :: "pyval \<Rightarrow> string \<Rightarrow> error + pyval" where
  "getitem (PDict d) k = (case map_of d k of None \<Rightarrow> Inl (KeyError k) | Some v \<Rightarrow> Inr v)"
| "getitem v k = Inl TypeError"

text \<open>\<^verbatim>\<open>d[k1][k2]...\<close>, read from the left.\<close>

fun getpath :: "pyval \<Rightarrow> string list \<Rightarrow> error + pyval" where
  "getpath v [] = Inr v"
| "getpath v (k # ks) = (case getitem v k of Inl e \<Rightarrow> Inl e | Inr v' \<Rightarrow> getpath v' ks)"

text \<open>
  \<^verbatim>\<open>k in d\<close>. By the time \<open>runMOFA\<close> evaluates it on \<open>data_opts\<close>, the lookup
  \<^verbatim>\<open>data_opts["outfile"]\<close> has succeeded, so \<open>data_opts\<close> is a dictionary; the other
  cases of \<open>has_key\<close> are never reached.
\<close>

fun has_key :: "pyval \<Rightarrow> string \<Rightarrow> bool" where
  "has_key (PDict d) k = (map_of d k \<noteq> None)"
| "has_key v k = False"

text \<open>Truth value of a Python object.\<close>

fun truthy :: "pyval \<Rightarrow> bool" where
  "truthy PNone = False"
| "truthy (PBool b) = b"
| "truthy (PInt i) = (i \<noteq> 0)"
| "truthy (PReal r) = (r \<noteq> 0)"
| "truthy (PStr s) = (s \<noteq> [])"
| "truthy (PList xs) = (xs \<noteq> [])"
| "truthy (PDict d) = (d \<noteq> [])"

text \<open>
  The builtin \<^verbatim>\<open>any(x)\<close>: some element of the iterable is truthy. The elements of a
  string are its one-character strings and those of a dictionary are its keys; a value
  that is not iterable raises TypeError.
\<close>

fun py_any :: "pyval \<Rightarrow> error + bool" where
  "py_any (PList xs) = Inr (list_ex truthy xs)"
| "py_any (PStr s) = Inr (s \<noteq> [])"
| "py_any (PDict d) = Inr (list_ex (\<lambda>kv. fst kv \<noteq> []) d)"
| "py_any v = Inl TypeError"

text \<open>
  \<^verbatim>\<open>scipy.unique(x)\<close> first makes an array of \<open>x\<close>. A number (a bool counts as 0 or 1)
  is an array of one entry. A list is an array of numbers only when it is rectangular:
  its entries are numbers, or they are lists of one and the same shape. \<open>array_shape\<close> is
  that shape and \<open>None\<close> for every other value (a list with rows of different lengths, a
  list with an entry that is not a number, \<^verbatim>\<open>None\<close>, a string, a dictionary).
\<close>

fun number :: "pyval \<Rightarrow> real option" where
  "number (PBool b) = Some (of_bool b)"
| "number (PInt i) = Some (of_int i)"
| "number (PReal r) = Some r"
| "number v = None"

fun array_shape :: "pyval \<Rightarrow> nat list option" where
  "array_shape (PList xs) =
     (case those (map array_shape xs) of
        None \<Rightarrow> None
      | Some [] \<Rightarrow> Some [0]
      | Some (d # ds) \<Rightarrow> if list_all (\<lambda>d'. d' = d) ds then Some (length xs # d) else None)"
| "array_shape v = (case number v of None \<Rightarrow> None | Some r \<Rightarrow> Some [])"

text \<open>The entries of a rectangular array of numbers, row by row.\<close>

fun entries :: "pyval \<Rightarrow> real list" where
  "entries (PList xs) = concat (map entries xs)"
| "entries v = (case number v of None \<Rightarrow> [] | Some r \<Rightarrow> [r])"

text \<open>
  The numbers \<^verbatim>\<open>scipy.unique\<close> reads in a value: those of a rectangular array of numbers,
  and \<open>None\<close> for a value that is not one.
\<close>

definition numbers :: "pyval \<Rightarrow> real list option" where
  "numbers v = (case array_shape v of None \<Rightarrow> None | Some d \<Rightarrow> Some (entries v))"

text \<open>\<^verbatim>\<open>scipy.unique\<close> of an array of numbers: the distinct values, sorted.\<close>

definition unique :: "real list \<Rightarrow> real list" where
  "unique xs = sort (remdups xs)"

text \<open>
  \<^verbatim>\<open>u == 1.\<close> for an entry \<open>u\<close> of the array \<^verbatim>\<open>scipy.unique\<close> returns: a number is compared
  by value, and an entry that is not a number (\<^verbatim>\<open>None\<close>, a string, a list, a dictionary)
  is equal to no number.
\<close>

definition equals_number :: "pyval \<Rightarrow> real \<Rightarrow> bool" where
  "equals_number v c = (number v = Some c)"

text \<open>
  \<^verbatim>\<open>os.path.dirname\<close> (posixpath): the path up to and including its last slash, with
  the trailing slashes removed unless that head is made of slashes only.
\<close>

definition dirname :: "string \<Rightarrow> string" where
  "dirname p =
     (let head = rev (dropWhile (\<lambda>c. c \<noteq> CHR ''/'') (rev p)) in
      if head \<noteq> [] \<and> head \<noteq> replicate (length head) (CHR ''/'')
      then rev (dropWhile (\<lambda>c. c = CHR ''/'') (rev head))
      else head)"

section \<open>The state \<open>runMOFA\<close> works on\<close>

text \<open>
  A view is a data frame; \<open>runMOFA\<close> reads its shape, its row labels (\<^verbatim>\<open>.index\<close>) and its
  column labels (\<^verbatim>\<open>.columns\<close>), never its cells.
\<close>

record view =
  index :: "string list"
  columns :: "string list"

definition shape :: "view \<Rightarrow> nat \<times> nat" where
  "shape v = (length (index v), length (columns v))"

text \<open>
  A node of the registry kept by the \<open>initModel\<close> object: the initialiser that built it
  and the keyword arguments of its \<open>addMarkovBlanket\<close> call, each neighbour held by its
  registry name (the nodes are shared objects, so a reference is a name, not a copy).
\<close>

record node =
  made_by :: string
  markov_blanket :: "(string \<times> string) list"

text \<open>
  The calls that leave \<open>runMOFA\<close>, with the arguments \<open>runMOFA\<close> computes for them.
  \<open>Init m kwargs\<close> is \<^verbatim>\<open>init.m(**kwargs)\<close>; \<open>InitModel M N D K likelihoods seed\<close> is
  the constructor call of line 74.
\<close>

datatype call =
    RandomSeed int
  | MakeDirs string
  | MaskData
  | InitModel nat nat "nat list" pyval pyval "int option"
  | Init string "(string \<times> pyval) list"
  | AddMarkovBlanket string "(string \<times> string) list"
  | NewBayesNet pyval
  | Iterate
  | SaveModel pyval pyval "string list" "string list list"

text \<open>A printed line: a literal, or a format string applied to its argument.\<close>

datatype out_line = Text string | TextInt string int | TextVal string pyval

text \<open>
  The program state: the arguments and locals of \<open>runMOFA\<close> (\<open>seed\<close> is \<open>None\<close> for
  Python's \<^verbatim>\<open>None\<close>), the directories that exist (\<open>fs\<close>), the seed held by the
  process-wide generator (\<open>rng\<close>), the printed lines (\<open>out\<close>), the node registry of the
  \<open>initModel\<close> object (\<open>nodes\<close>) and the log of external calls in the order made
  (\<open>calls\<close>).
\<close>

record world =
  data :: "view list"
  data_opts :: pyval
  model_opts :: pyval
  train_opts :: pyval
  seed :: "int option"
  fs :: "string set"
  rng :: "int option"
  out :: "out_line list"
  nodes :: "(string \<times> node) list"
  calls :: "call list"

text \<open>
  What \<open>runMOFA\<close> cannot decide by itself is a parameter: the reading of the wall clock
  \<^verbatim>\<open>time()\<close>, whether an external call raises (the validation done inside the
  collaborators, none of which is part of \<open>build_model.py\<close>), the data \<open>maskData\<close>
  returns, and what \<^verbatim>\<open>scipy.unique\<close> makes of a list that is not a rectangular array of
  numbers (\<open>unique_objects\<close>: the entries of the array it returns, or the error it raises;
  the numpy of the repository's time makes an array of objects of such a list and a later
  numpy refuses a list with rows of different lengths).
\<close>

record env =
  time :: real
  raises :: "call \<Rightarrow> world \<Rightarrow> error option"
  maskData :: "view list \<Rightarrow> pyval \<Rightarrow> view list"
  unique_objects :: "pyval \<Rightarrow> error + pyval list"

text \<open>
  A step either raises, which ends \<open>runMOFA\<close> (the function has no handler), or returns
  the next state. The state at the raise is kept, so that what had been done by then can
  be read off.
\<close>

type_synonym result = "(error \<times> world) + world"

fun run_steps :: "(world \<Rightarrow> result) list \<Rightarrow> world \<Rightarrow> result" where
  "run_steps [] w = Inr w"
| "run_steps (s # ss) w = (case s w of Inl ew \<Rightarrow> Inl ew | Inr w' \<Rightarrow> run_steps ss w')"

definition on_value :: "world \<Rightarrow> error + 'a \<Rightarrow> ('a \<Rightarrow> result) \<Rightarrow> result" where
  "on_value w x f = (case x of Inl e \<Rightarrow> Inl (e, w) | Inr v \<Rightarrow> f v)"

text \<open>An external call is logged when it is made; it raises or returns.\<close>

definition ext_call :: "env \<Rightarrow> call \<Rightarrow> world \<Rightarrow> result" where
  "ext_call ev c w =
     (case raises ev c w of
        Some e \<Rightarrow> Inl (e, w\<lparr>calls := calls w @ [c]\<rparr>)
      | None \<Rightarrow> Inr (w\<lparr>calls := calls w @ [c]\<rparr>))"

definition print_lines :: "out_line list \<Rightarrow> world \<Rightarrow> result" where
  "print_lines ls w = Inr (w\<lparr>out := out w @ ls\<rparr>)"

definition nl :: string where
  "nl = [CHR 0x0A]"

section \<open>\<open>runMOFA\<close>, step by step\<close>

subsection \<open>Lines 28 to 31: the seed\<close>

text \<open>
  \<^verbatim>\<open>if seed is None or seed==0: seed = int(round(time()*1000)%1e6)\<close>, then
  \<^verbatim>\<open>s.random.seed(seed)\<close>. The clock reading is a non-negative real and \<open>round\<close> is
  the nearest integer, a half going up (Python 3 sends an exact half to the even
  neighbour; the two differ on no other reading). The remainder is taken on integers.
\<close>

definition clock_seed :: "env \<Rightarrow> int" where
  "clock_seed ev = round (time ev * 1000) mod 1000000"

definition seed_used :: "env \<Rightarrow> int option \<Rightarrow> int" where
  "seed_used ev sd =
     (case sd of None \<Rightarrow> clock_seed ev | Some n \<Rightarrow> if n = 0 then clock_seed ev else n)"

definition set_seed :: "env \<Rightarrow> world \<Rightarrow> result" where
  "set_seed ev w =
     (case ext_call ev (RandomSeed (seed_used ev (seed w))) (w\<lparr>seed := Some (seed_used ev (seed w))\<rparr>) of
        Inl ew \<Rightarrow> Inl ew
      | Inr w' \<Rightarrow> Inr (w'\<lparr>rng := seed w'\<rparr>))"

subsection \<open>Lines 34 to 41: sanity checks\<close>

text \<open>
  \<^verbatim>\<open>if not os.path.isdir(os.path.dirname(data_opts["outfile"])):\<close> print a notice and
  \<^verbatim>\<open>os.makedirs\<close> the directory. \<open>dirname\<close> of a value that is not a string raises
  TypeError. After a \<open>makedirs\<close> that returns, the directory exists (the intermediate
  directories it makes on the way are not tracked).
\<close>

definition sanity_checks :: "env \<Rightarrow> world \<Rightarrow> result" where
  "sanity_checks ev w =
     on_value w (getitem (data_opts w) ''outfile'') (\<lambda>f.
       case f of
         PStr p \<Rightarrow>
           if dirname p \<in> fs w then Inr w
           else (case ext_call ev (MakeDirs (dirname p))
                        (w\<lparr>out := out w @ [Text ''Output directory does not exist, creating it...'']\<rparr>) of
                   Inl ew \<Rightarrow> Inl ew
                 | Inr w' \<Rightarrow> Inr (w'\<lparr>fs := insert (dirname p) (fs w')\<rparr>))
       | _ \<Rightarrow> Inl (TypeError, w))"

subsection \<open>Lines 43 to 50: parse the data\<close>

text \<open>\<^verbatim>\<open>data = maskData(data, data_opts)\<close>\<close>

definition apply_maskData :: "env \<Rightarrow> world \<Rightarrow> result" where
  "apply_maskData ev w =
     (case ext_call ev MaskData w of
        Inl ew \<Rightarrow> Inl ew
      | Inr w' \<Rightarrow> Inr (w'\<lparr>data := maskData ev (data w') (data_opts w')\<rparr>))"

text \<open>
  \<^verbatim>\<open>if 'maskAtRandom' in data_opts or 'maskNSamples' in data_opts:\<close>
  \<^verbatim>\<open>    if any(data_opts['maskAtRandom']) or any(data_opts['maskNSamples']):\<close>
  The inner \<^verbatim>\<open>or\<close> reads its right operand only when the left one is false.
\<close>

definition parse_data :: "env \<Rightarrow> world \<Rightarrow> result" where
  "parse_data ev w =
     (if has_key (data_opts w) ''maskAtRandom'' \<or> has_key (data_opts w) ''maskNSamples'' then
        on_value w (getitem (data_opts w) ''maskAtRandom'') (\<lambda>a.
        on_value w (py_any a) (\<lambda>any_a.
          if any_a then apply_maskData ev w
          else
            on_value w (getitem (data_opts w) ''maskNSamples'') (\<lambda>n.
            on_value w (py_any n) (\<lambda>any_n.
              if any_n then apply_maskData ev w else Inr w))))
      else Inr w)"

subsection \<open>Lines 52 to 116: define and initialise the nodes\<close>

text \<open>The two \<^verbatim>\<open>sleep(1)\<close> calls (lines 61 and 143) change nothing and are left out.\<close>

definition building_banner :: "world \<Rightarrow> result" where
  "building_banner w =
     print_lines
       [Text nl, Text (replicate 24 (CHR ''#'')), Text ''## Building the model ##'',
        Text (replicate 24 (CHR ''#'')), Text nl] w"

text \<open>\<^verbatim>\<open>print("Setting random seed %i...\n" % seed)\<close>; \<^verbatim>\<open>%i\<close> of \<open>None\<close> is a TypeError.\<close>

definition print_seed :: "world \<Rightarrow> result" where
  "print_seed w =
     (case seed w of
        None \<Rightarrow> Inl (TypeError, w)
      | Some s \<Rightarrow> print_lines [TextInt (''Setting random seed %i...'' @ nl) s] w)"

text \<open>
  Lines 66 to 74: \<^verbatim>\<open>M = len(data)\<close>, \<^verbatim>\<open>N = data[0].shape[0]\<close> (IndexError on no view),
  \<^verbatim>\<open>D = [data[m].shape[1] ...]\<close>, \<^verbatim>\<open>K = model_opts["factors"]\<close>, then
  \<^verbatim>\<open>init = initModel(dim, data, model_opts["likelihoods"], seed=seed)\<close>.

  Modelled from the spec: \<open>initModel\<close> is not part of \<open>build_model.py\<close>. The spec's
  registry of nodes by name starts empty in a new \<open>initModel\<close> object.
\<close>

definition new_initModel :: "env \<Rightarrow> world \<Rightarrow> result" where
  "new_initModel ev w =
     (case data w of
        [] \<Rightarrow> Inl (IndexError, w)
      | v0 # vs \<Rightarrow>
          on_value w (getitem (model_opts w) ''factors'') (\<lambda>K.
          on_value w (getitem (model_opts w) ''likelihoods'') (\<lambda>liks.
            case ext_call ev
                   (InitModel (length (data w)) (fst (shape v0)) (map (\<lambda>v. snd (shape v)) (data w))
                      K liks (seed w)) w of
              Inl ew \<Rightarrow> Inl ew
            | Inr w' \<Rightarrow> Inr (w'\<lparr>nodes := []\<rparr>))))"

text \<open>
  The keyword arguments of an initialiser are read from the option dictionaries, left to
  right; the first lookup that fails raises.
\<close>

datatype opts = DataOpts | ModelOpts

fun eval_args :: "world \<Rightarrow> (string \<times> opts \<times> string list) list \<Rightarrow> error + (string \<times> pyval) list" where
  "eval_args w [] = Inr []"
| "eval_args w ((kw, src, path) # rest) =
     (case getpath (case src of DataOpts \<Rightarrow> data_opts w | ModelOpts \<Rightarrow> model_opts w) path of
        Inl e \<Rightarrow> Inl e
      | Inr v \<Rightarrow> (case eval_args w rest of Inl e \<Rightarrow> Inl e | Inr kws \<Rightarrow> Inr ((kw, v) # kws)))"

text \<open>
  \<^verbatim>\<open>init.meth(kw=..., ...)\<close>.

  Modelled from the spec: the initialisers are not part of \<open>build_model.py\<close>. An
  initialiser that returns has put the node it builds into the registry under the name
  \<open>runMOFA\<close> later reads it by, not yet wired.
\<close>

definition init_node :: "env \<Rightarrow> string \<Rightarrow> string \<Rightarrow> (string \<times> opts \<times> string list) list \<Rightarrow> world \<Rightarrow> result" where
  "init_node ev meth name specs w =
     on_value w (eval_args w specs) (\<lambda>kws.
       case ext_call ev (Init meth kws) w of
         Inl ew \<Rightarrow> Inl ew
       | Inr w' \<Rightarrow>
           Inr (w'\<lparr>nodes := AList.update name \<lparr>made_by = meth, markov_blanket = []\<rparr> (nodes w')\<rparr>))"

definition initZ_args :: "(string \<times> opts \<times> string list) list" where
  "initZ_args =
     [(''pmean'', ModelOpts, [''priorZ'', ''mean'']), (''pvar'', ModelOpts, [''priorZ'', ''var'']),
      (''qmean'', ModelOpts, [''initZ'', ''mean'']), (''qvar'', ModelOpts, [''initZ'', ''var'']),
      (''qE'', ModelOpts, [''initZ'', ''E'']), (''qE2'', ModelOpts, [''initZ'', ''E2'']),
      (''covariates'', DataOpts, [''covariates'']),
      (''scale_covariates'', DataOpts, [''scale_covariates''])]"

definition initSW_args :: "(string \<times> opts \<times> string list) list" where
  "initSW_args =
     [(''ptheta'', ModelOpts, [''priorSW'', ''Theta'']),
      (''pmean_S0'', ModelOpts, [''priorSW'', ''mean_S0'']),
      (''pvar_S0'', ModelOpts, [''priorSW'', ''var_S0'']),
      (''pmean_S1'', ModelOpts, [''priorSW'', ''mean_S1'']),
      (''pvar_S1'', ModelOpts, [''priorSW'', ''var_S1'']),
      (''qtheta'', ModelOpts, [''initSW'', ''Theta'']),
      (''qmean_S0'', ModelOpts, [''initSW'', ''mean_S0'']),
      (''qvar_S0'', ModelOpts, [''initSW'', ''var_S0'']),
      (''qmean_S1'', ModelOpts, [''initSW'', ''mean_S1'']),
      (''qvar_S1'', ModelOpts, [''initSW'', ''var_S1'']),
      (''qEW_S0'', ModelOpts, [''initSW'', ''EW_S0'']),
      (''qEW_S1'', ModelOpts, [''initSW'', ''EW_S1'']),
      (''qES'', ModelOpts, [''initSW'', ''ES''])]"

definition initAlphaW_mk_args :: "(string \<times> opts \<times> string list) list" where
  "initAlphaW_mk_args =
     [(''pa'', ModelOpts, [''priorAlphaW'', ''a'']), (''pb'', ModelOpts, [''priorAlphaW'', ''b'']),
      (''qa'', ModelOpts, [''initAlphaW'', ''a'']), (''qb'', ModelOpts, [''initAlphaW'', ''b'']),
      (''qE'', ModelOpts, [''initAlphaW'', ''E''])]"

definition initTau_args :: "(string \<times> opts \<times> string list) list" where
  "initTau_args =
     [(''pa'', ModelOpts, [''priorTau'', ''a'']), (''pb'', ModelOpts, [''priorTau'', ''b'']),
      (''qa'', ModelOpts, [''initTau'', ''a'']), (''qb'', ModelOpts, [''initTau'', ''b'']),
      (''qE'', ModelOpts, [''initTau'', ''E''])]"

definition initThetaMixed_args :: "(string \<times> opts \<times> string list) list" where
  "initThetaMixed_args =
     [(''pa'', ModelOpts, [''priorTheta'', ''a'']), (''pb'', ModelOpts, [''priorTheta'', ''b'']),
      (''qa'', ModelOpts, [''initTheta'', ''a'']), (''qb'', ModelOpts, [''initTheta'', ''b'']),
      (''qE'', ModelOpts, [''initTheta'', ''E'']), (''sparsity'', ModelOpts, [''sparsity''])]"

definition initThetaConst_args :: "(string \<times> opts \<times> string list) list" where
  "initThetaConst_args = [(''value'', ModelOpts, [''initTheta'', ''E''])]"

text \<open>
  \<^verbatim>\<open>s.unique(model_opts['sparsity'])\<close>, as the list of the entries of the array it
  returns: the distinct numbers of a rectangular array of numbers, sorted; the value itself
  for a value that is neither a number nor a list (\<^verbatim>\<open>None\<close>, a string, a dictionary: an
  array of that one entry); and for any other list what the environment says.
\<close>

definition np_unique :: "env \<Rightarrow> pyval \<Rightarrow> error + pyval list" where
  "np_unique ev sp =
     (case numbers sp of
        Some xs \<Rightarrow> Inr (map PReal (unique xs))
      | None \<Rightarrow> (case sp of PList xs \<Rightarrow> unique_objects ev sp | _ \<Rightarrow> Inr [sp]))"

text \<open>
  Lines 94 to 113, the choice of the Theta initialiser from the entries \<open>u\<close> of
  \<^verbatim>\<open>s.unique(model_opts['sparsity'])\<close>:
  \<^verbatim>\<open>
  if len(s.unique(sparsity)) == 1:
      if s.unique(sparsity)==1.:    init.initThetaMixed(..., sparsity=sparsity)
      elif s.unique(sparsity)==0.:  init.initThetaConst(value=model_opts["initTheta"]['E'])
  else:
      init.initThetaMixed(..., sparsity=sparsity)
  \<close>
  The inner \<^verbatim>\<open>if\<close> has no \<^verbatim>\<open>else\<close>: \<open>None\<close> is the path on which no initialiser is
  called.
\<close>

definition theta_init :: "pyval list \<Rightarrow> string option" where
  "theta_init u =
     (if length u = 1 then
        (if equals_number (hd u) 1 then Some ''initThetaMixed''
         else if equals_number (hd u) 0 then Some ''initThetaConst''
         else None)
      else Some ''initThetaMixed'')"

definition theta_args :: "string \<Rightarrow> (string \<times> opts \<times> string list) list" where
  "theta_args meth = (if meth = ''initThetaConst'' then initThetaConst_args else initThetaMixed_args)"

definition init_Theta :: "env \<Rightarrow> world \<Rightarrow> result" where
  "init_Theta ev w =
     on_value w (getitem (model_opts w) ''sparsity'') (\<lambda>sp.
     on_value w (np_unique ev sp) (\<lambda>u.
       case theta_init u of
         None \<Rightarrow> Inr w
       | Some meth \<Rightarrow> init_node ev meth ''Theta'' (theta_args meth) w))"

definition init_nodes :: "env \<Rightarrow> world \<Rightarrow> result" where
  "init_nodes ev =
     run_steps
       [new_initModel ev,
        init_node ev ''initZ'' ''Z'' initZ_args,
        init_node ev ''initSW'' ''SW'' initSW_args,
        init_node ev ''initAlphaW_mk'' ''AlphaW'' initAlphaW_mk_args,
        init_node ev ''initTau'' ''Tau'' initTau_args,
        init_Theta ev,
        init_node ev ''initY'' ''Y'' []]"

subsection \<open>Lines 118 to 125: the Markov blankets\<close>

text \<open>
  \<^verbatim>\<open>nodes = init.getNodes()\<close>, then for each node
  \<^verbatim>\<open>nodes[n].addMarkovBlanket(kw=nodes[m], ...)\<close>: the node and its neighbours are read
  from the registry first, left to right, and a name that is not there is a KeyError.

  Modelled from the spec: \<open>addMarkovBlanket\<close> is not part of \<open>build_model.py\<close>. It
  attaches to the node the neighbours it is given, by name.
\<close>

definition addMarkovBlanket :: "env \<Rightarrow> string \<Rightarrow> (string \<times> string) list \<Rightarrow> world \<Rightarrow> result" where
  "addMarkovBlanket ev n kws w =
     (case find (\<lambda>k. map_of (nodes w) k = None) (n # map snd kws) of
        Some k \<Rightarrow> Inl (KeyError k, w)
      | None \<Rightarrow>
          (case ext_call ev (AddMarkovBlanket n kws) w of
             Inl ew \<Rightarrow> Inl ew
           | Inr w' \<Rightarrow>
               Inr (w'\<lparr>nodes := AList.map_entry n (\<lambda>nd. nd\<lparr>markov_blanket := kws\<rparr>) (nodes w')\<rparr>)))"

definition define_markov_blankets :: "env \<Rightarrow> world \<Rightarrow> result" where
  "define_markov_blankets ev =
     run_steps
       [addMarkovBlanket ev ''Z'' [(''SW'', ''SW''), (''Tau'', ''Tau''), (''Y'', ''Y'')],
        addMarkovBlanket ev ''Theta'' [(''SW'', ''SW'')],
        addMarkovBlanket ev ''AlphaW'' [(''SW'', ''SW'')],
        addMarkovBlanket ev ''SW''
          [(''Z'', ''Z''), (''Tau'', ''Tau''), (''Alpha'', ''AlphaW''), (''Y'', ''Y''), (''Theta'', ''Theta'')],
        addMarkovBlanket ev ''Y'' [(''Z'', ''Z''), (''SW'', ''SW''), (''Tau'', ''Tau'')],
        addMarkovBlanket ev ''Tau'' [(''Z'', ''Z''), (''SW'', ''SW''), (''Y'', ''Y'')]]"

definition define_model :: "env \<Rightarrow> world \<Rightarrow> result" where
  "define_model ev =
     run_steps [building_banner, print_seed, init_nodes ev, define_markov_blankets ev]"

subsection \<open>Lines 127 to 167: the network, training, saving\<close>

text \<open>
  \<^verbatim>\<open>net = BayesNet(dim=dim, schedule=model_opts["schedule"], nodes=init.getNodes(),\<close>
  \<^verbatim>\<open>               options=train_opts)\<close>
\<close>

definition add_nodes_to_network :: "env \<Rightarrow> world \<Rightarrow> result" where
  "add_nodes_to_network ev w =
     on_value w (getitem (model_opts w) ''schedule'') (\<lambda>sched. ext_call ev (NewBayesNet sched) w)"

definition running_banner :: "world \<Rightarrow> result" where
  "running_banner w =
     (case seed w of
        None \<Rightarrow> Inl (TypeError, w)
      | Some s \<Rightarrow>
          print_lines
            [Text nl, Text (replicate 45 (CHR ''#'')), TextInt ''## Running MOFA with seed %d ##'' s,
             Text (replicate 45 (CHR ''#'')), Text nl] w)"

text \<open>\<^verbatim>\<open>net.iterate()\<close>\<close>

definition start_training :: "env \<Rightarrow> world \<Rightarrow> result" where
  "start_training ev = run_steps [running_banner, ext_call ev Iterate]"

definition finished_banner :: "world \<Rightarrow> result" where
  "finished_banner w =
     print_lines
       [Text nl, Text (replicate 43 (CHR ''#'')), Text ''## Training finished, processing results ##'',
        Text (replicate 43 (CHR ''#'')), Text nl] w"

text \<open>
  Lines 162 to 167: the sample names of the first view, the feature names of every
  view, a notice, and \<^verbatim>\<open>saveModel(net, outfile=data_opts['outfile'],\<close>
  \<^verbatim>\<open>view_names=data_opts['view_names'], ...)\<close>.
\<close>

definition save_model :: "env \<Rightarrow> world \<Rightarrow> result" where
  "save_model ev w =
     (case data w of
        [] \<Rightarrow> Inl (IndexError, w)
      | v0 # vs \<Rightarrow>
          on_value w (getitem (data_opts w) ''outfile'') (\<lambda>f.
            case print_lines [TextVal (''Saving model in %s...'' @ nl) f] w of
              Inl ew \<Rightarrow> Inl ew
            | Inr w1 \<Rightarrow>
                on_value w1 (getitem (data_opts w1) ''outfile'') (\<lambda>outfile.
                on_value w1 (getitem (data_opts w1) ''view_names'') (\<lambda>view_names.
                  ext_call ev (SaveModel outfile view_names (index v0) (map columns (data w1))) w1))))"

definition save_results :: "env \<Rightarrow> world \<Rightarrow> result" where
  "save_results ev = run_steps [finished_banner, save_model ev]"

subsection \<open>The whole function\<close>

text \<open>Everything before \<^verbatim>\<open>net.iterate()\<close> is reached: lines 28 to 132.\<close>

definition build :: "env \<Rightarrow> world \<Rightarrow> result" where
  "build ev =
     run_steps
       [set_seed ev, sanity_checks ev, parse_data ev, define_model ev, add_nodes_to_network ev]"

definition runMOFA :: "env \<Rightarrow> world \<Rightarrow> result" where
  "runMOFA ev = run_steps [build ev, start_training ev, save_results ev]"

section \<open>A sample run\<close>

text \<open>
  Modelled from the spec: the collaborators are not part of \<open>build_model.py\<close>. In this
  environment \<open>initModel\<close> raises on a likelihood tag that is not one of the five the
  repository names (gaussian, poisson, bernoulli, binomial, warp), every other external
  call returns, and \<open>maskData\<close> keeps the shape and the labels of every view. The clock
  reads 1700000123.456 seconds. Of a list that is not a rectangular array of numbers
  \<^verbatim>\<open>scipy.unique\<close> returns the distinct entries, as the numpy of the repository's time
  does.
\<close>

definition known_likelihoods :: "pyval list" where
  "known_likelihoods =
     [PStr ''gaussian'', PStr ''poisson'', PStr ''bernoulli'', PStr ''binomial'', PStr ''warp'']"

fun spec_raises :: "call \<Rightarrow> world \<Rightarrow> error option" where
  "spec_raises (InitModel M N D K (PList tags) sd) w =
     (if list_all (\<lambda>t. t \<in> set known_likelihoods) tags then None
      else Some (Raised ''unknown likelihood''))"
| "spec_raises c w = None"

fun spec_unique_objects :: "pyval \<Rightarrow> error + pyval list" where
  "spec_unique_objects (PList xs) = Inr (remdups xs)"
| "spec_unique_objects v = Inr [v]"

definition spec_env :: env where
  "spec_env =
     \<lparr>time = 1700000123456 / 1000, raises = spec_raises, maskData = (\<lambda>d opts. d),
      unique_objects = spec_unique_objects\<rparr>"

text \<open>
  One view of two samples and three features, written to \<^verbatim>\<open>/tmp/out/model.h5\<close> with
  only \<^verbatim>\<open>/tmp\<close> there; the model options hold every key \<open>runMOFA\<close> reads, and
  \<^verbatim>\<open>ardW\<close>, the mode key of the repository's test script.
\<close>

definition sample_data :: "view list" where
  "sample_data = [\<lparr>index = [''s1'', ''s2''], columns = [''f1'', ''f2'', ''f3'']\<rparr>]"

definition sample_data_opts :: pyval where
  "sample_data_opts =
     PDict [(''outfile'', PStr ''/tmp/out/model.h5''), (''view_names'', PList [PStr ''rna'']),
            (''covariates'', PNone), (''scale_covariates'', PNone)]"

definition ab :: pyval where
  "ab = PDict [(''a'', PList [PReal 1]), (''b'', PList [PReal 1]), (''E'', PList [PReal 1])]"

definition sample_model_opts :: "pyval \<Rightarrow> pyval \<Rightarrow> pyval \<Rightarrow> pyval" where
  "sample_model_opts liks sparsity ardW =
     PDict
       [(''factors'', PInt 2), (''likelihoods'', liks), (''ardW'', ardW),
        (''priorZ'', PDict [(''mean'', PReal 0), (''var'', PReal 1)]),
        (''initZ'', PDict [(''mean'', PStr ''random''), (''var'', PReal 1), (''E'', PNone), (''E2'', PNone)]),
        (''priorSW'',
           PDict [(''Theta'', PNone), (''mean_S0'', PNone), (''var_S0'', PNone), (''mean_S1'', PNone),
                  (''var_S1'', PNone)]),
        (''initSW'',
           PDict [(''Theta'', PReal (1 / 2)), (''mean_S0'', PReal 0), (''var_S0'', PNone),
                  (''mean_S1'', PReal 0), (''var_S1'', PReal 1), (''ES'', PNone), (''EW_S0'', PNone),
                  (''EW_S1'', PNone)]),
        (''priorAlphaW'', ab), (''initAlphaW'', ab), (''priorTau'', ab), (''initTau'', ab),
        (''sparsity'', sparsity), (''priorTheta'', ab), (''initTheta'', ab),
        (''schedule'', PList [PStr ''SW'', PStr ''Z'', PStr ''AlphaW'', PStr ''Theta'', PStr ''Tau''])]"

definition sample_world :: "pyval \<Rightarrow> pyval \<Rightarrow> int option \<Rightarrow> world" where
  "sample_world dopts mopts sd =
     \<lparr>data = sample_data, data_opts = dopts, model_opts = mopts, train_opts = PDict [],
      seed = sd, fs = {''/tmp''}, rng = None, out = [], nodes = [], calls = []\<rparr>"

definition gaussian :: pyval where
  "gaussian = PList [PStr ''gaussian'']"

definition mixed_sparsity :: pyval where
  "mixed_sparsity = PList [PList [PReal 1, PReal 0]]"

definition half_sparsity :: pyval where
  "half_sparsity = PList [PList [PReal (1 / 2), PReal (1 / 2)]]"

definition ok_world :: world where
  "ok_world = sample_world sample_data_opts (sample_model_opts gaussian mixed_sparsity (PStr ''mk'')) (Some 42)"

text \<open>The same run with a likelihood tag the repository does not know.\<close>

definition foo_world :: world where
  "foo_world =
     sample_world sample_data_opts (sample_model_opts (PList [PStr ''foo'']) mixed_sparsity (PStr ''mk''))
       (Some 42)"

text \<open>The same run with every entry of the sparsity array equal to one half.\<close>

definition half_world :: world where
  "half_world = sample_world sample_data_opts (sample_model_opts gaussian half_sparsity (PStr ''mk'')) (Some 42)"

text \<open>
  A state whose model options hold what the Theta step reads, \<^verbatim>\<open>priorTheta\<close> and
  \<^verbatim>\<open>initTheta\<close> with five different values, and the sparsity option \<open>sp\<close>.
\<close>

definition theta_world :: "pyval \<Rightarrow> world" where
  "theta_world sp =
     sample_world sample_data_opts
       (PDict [(''sparsity'', sp),
               (''priorTheta'', PDict [(''a'', PReal 1), (''b'', PReal 2)]),
               (''initTheta'', PDict [(''a'', PReal 3), (''b'', PReal 4), (''E'', PReal 5)])])
       (Some 42)"

text \<open>The sample run with no \<^verbatim>\<open>view_names\<close> in the data options.\<close>

definition no_view_names_world :: world where
  "no_view_names_world =
     sample_world
       (PDict [(''outfile'', PStr ''/tmp/out/model.h5''), (''covariates'', PNone),
               (''scale_covariates'', PNone)])
       (sample_model_opts gaussian mixed_sparsity (PStr ''mk'')) (Some 42)"

text \<open>The sample environment with collaborators that check nothing: no external call raises.\<close>

definition lax_env :: env where
  "lax_env = spec_env\<lparr>raises := (\<lambda>c w. None)\<rparr>"

text \<open>The sample run with the mode key \<^verbatim>\<open>ardW\<close> of the test script set to \<open>mode\<close>.\<close>

definition ard_world :: "string \<Rightarrow> world" where
  "ard_world mode =
     sample_world sample_data_opts (sample_model_opts gaussian mixed_sparsity (PStr mode)) (Some 42)"

text \<open>The sample run called without a seed.\<close>

definition clock_world :: world where
  "clock_world = sample_world sample_data_opts (sample_model_opts gaussian mixed_sparsity (PStr ''mk'')) None"

text \<open>
  Data options that hold \<^verbatim>\<open>maskNSamples\<close> but not \<^verbatim>\<open>maskAtRandom\<close>, and data options
  that hold both, the first with no truthy entry and the second with one.
\<close>

definition nsamples_opts :: pyval where
  "nsamples_opts =
     PDict [(''outfile'', PStr ''/tmp/out/model.h5''), (''view_names'', PList [PStr ''rna'']),
            (''covariates'', PNone), (''scale_covariates'', PNone), (''maskNSamples'', PList [PInt 1])]"

definition nsamples_world :: world where
  "nsamples_world =
     sample_world nsamples_opts (sample_model_opts gaussian mixed_sparsity (PStr ''mk'')) (Some 42)"

definition masking_opts :: pyval where
  "masking_opts =
     PDict [(''outfile'', PStr ''/tmp/out/model.h5''), (''view_names'', PList [PStr ''rna'']),
            (''covariates'', PNone), (''scale_covariates'', PNone),
            (''maskAtRandom'', PList [PReal 0]), (''maskNSamples'', PList [PInt 1])]"

definition masking_world :: world where
  "masking_world =
     sample_world masking_opts (sample_model_opts gaussian mixed_sparsity (PStr ''mk'')) (Some 42)"

section \<open>Observations on a run\<close>

text \<open>The state a step leaves, whether it raised or returned.\<close>

definition final :: "result \<Rightarrow> world" where
  "final r = (case r of Inl ew \<Rightarrow> snd ew | Inr w \<Rightarrow> w)"

text \<open>
  The section of \<open>runMOFA\<close> an external call belongs to: seeding, the sanity checks, the
  parsing of the data, the \<open>initModel\<close> object, the nodes, the Markov blankets, the
  network, training, saving.
\<close>

fun phase :: "call \<Rightarrow> nat" where
  "phase (RandomSeed s) = 0"
| "phase (MakeDirs p) = 1"
| "phase MaskData = 2"
| "phase (InitModel M N D K liks sd) = 3"
| "phase (Init m kws) = 4"
| "phase (AddMarkovBlanket n kws) = 5"
| "phase (NewBayesNet sched) = 6"
| "phase Iterate = 7"
| "phase (SaveModel f vn sn fn) = 8"

text \<open>The calls made so far are in the order of the sections, none later than section \<open>p\<close>.\<close>

definition ordered_upto :: "nat \<Rightarrow> world \<Rightarrow> bool" where
  "ordered_upto p w = (sorted (map phase (calls w)) \<and> list_all (\<lambda>c. phase c \<le> p) (calls w))"

text \<open>
  What every step does at most: it adds calls and printed lines, it may make a
  directory, and it leaves the three option dictionaries alone.
\<close>

definition advances :: "world \<Rightarrow> world \<Rightarrow> bool" where
  "advances w w' =
     (prefix (calls w) (calls w') \<and> prefix (out w) (out w') \<and> data_opts w' = data_opts w \<and>
      model_opts w' = model_opts w \<and> train_opts w' = train_opts w \<and> fs w \<subseteq> fs w')"

text \<open>The registry names of the nodes attached to node \<open>n\<close>.\<close>

definition neighbours :: "world \<Rightarrow> string \<Rightarrow> string set" where
  "neighbours w n = (case map_of (nodes w) n of None \<Rightarrow> {} | Some nd \<Rightarrow> snd ` set (markov_blanket nd))"

definition fresh :: "string \<Rightarrow> node" where
  "fresh m = \<lparr>made_by = m, markov_blanket = []\<rparr>"

text \<open>The registry after lines 119 to 125, with the Theta node made by \<open>m\<close>.\<close>

definition wired :: "string \<Rightarrow> (string \<times> node) list" where
  "wired m =
     [(''Z'', \<lparr>made_by = ''initZ'', markov_blanket = [(''SW'', ''SW''), (''Tau'', ''Tau''), (''Y'', ''Y'')]\<rparr>),
      (''SW'', \<lparr>made_by = ''initSW'', markov_blanket =
          [(''Z'', ''Z''), (''Tau'', ''Tau''), (''Alpha'', ''AlphaW''), (''Y'', ''Y''), (''Theta'', ''Theta'')]\<rparr>),
      (''AlphaW'', \<lparr>made_by = ''initAlphaW_mk'', markov_blanket = [(''SW'', ''SW'')]\<rparr>),
      (''Tau'', \<lparr>made_by = ''initTau'', markov_blanket = [(''Z'', ''Z''), (''SW'', ''SW''), (''Y'', ''Y'')]\<rparr>),
      (''Theta'', \<lparr>made_by = m, markov_blanket = [(''SW'', ''SW'')]\<rparr>),
      (''Y'', \<lparr>made_by = ''initY'', markov_blanket = [(''Z'', ''Z''), (''SW'', ''SW''), (''Tau'', ''Tau'')]\<rparr>)]"

text \<open>Whether a run returned, and the error it raised.\<close>

definition returned :: "result \<Rightarrow> bool" where
  "returned r = (case r of Inl ew \<Rightarrow> False | Inr w \<Rightarrow> True)"

definition raised :: "result \<Rightarrow> error option" where
  "raised r = (case r of Inl ew \<Rightarrow> Some (fst ew) | Inr w \<Rightarrow> None)"

text \<open>The initialiser that built the node registered as \<open>n\<close>.\<close>

definition maker :: "world \<Rightarrow> string \<Rightarrow> string option" where
  "maker w n = map_option made_by (map_of (nodes w) n)"

text \<open>A step that leaves the seed and the generator alone.\<close>

definition keeps_seed :: "world \<Rightarrow> world \<Rightarrow> bool" where
  "keeps_seed w w' = (seed w' = seed w \<and> rng w' = rng w)"

text \<open>
  The steps of lines 28 to 132 and of lines 138 to 167 in one list each, the nested
  sections of \<open>build\<close> and \<open>runMOFA\<close> laid out flat.
\<close>

definition build_steps :: "env \<Rightarrow> (world \<Rightarrow> result) list" where
  "build_steps ev =
     [set_seed ev, sanity_checks ev, parse_data ev, building_banner, print_seed, new_initModel ev,
      init_node ev ''initZ'' ''Z'' initZ_args,
      init_node ev ''initSW'' ''SW'' initSW_args,
      init_node ev ''initAlphaW_mk'' ''AlphaW'' initAlphaW_mk_args,
      init_node ev ''initTau'' ''Tau'' initTau_args,
      init_Theta ev,
      init_node ev ''initY'' ''Y'' [],
      addMarkovBlanket ev ''Z'' [(''SW'', ''SW''), (''Tau'', ''Tau''), (''Y'', ''Y'')],
      addMarkovBlanket ev ''Theta'' [(''SW'', ''SW'')],
      addMarkovBlanket ev ''AlphaW'' [(''SW'', ''SW'')],
      addMarkovBlanket ev ''SW''
        [(''Z'', ''Z''), (''Tau'', ''Tau''), (''Alpha'', ''AlphaW''), (''Y'', ''Y''), (''Theta'', ''Theta'')],
      addMarkovBlanket ev ''Y'' [(''Z'', ''Z''), (''SW'', ''SW''), (''Tau'', ''Tau'')],
      addMarkovBlanket ev ''Tau'' [(''Z'', ''Z''), (''SW'', ''SW''), (''Y'', ''Y'')],
      add_nodes_to_network ev]"

definition train_steps :: "env \<Rightarrow> (world \<Rightarrow> result) list" where
  "train_steps ev = [running_banner, ext_call ev Iterate, finished_banner, save_model ev]"

text \<open>A step that only adds calls of section \<open>p\<close> or later.\<close>

definition adds_from :: "nat \<Rightarrow> world \<Rightarrow> world \<Rightarrow> bool" where
  "adds_from p w w' = (\<exists>r. calls w' = calls w @ r \<and> list_all (\<lambda>c. p \<le> phase c) r)"

text \<open>
  The condition of lines 48 and 49 as a sentence about the dictionary: it holds one of
  the two keys, and some entry of \<^verbatim>\<open>data_opts['maskAtRandom']\<close> or of
  \<^verbatim>\<open>data_opts['maskNSamples']\<close> is truthy. An entry that is missing has no truthy
  entry.
\<close>

definition any_entry :: "pyval \<Rightarrow> string \<Rightarrow> bool" where
  "any_entry d k = (case getitem d k of Inl e \<Rightarrow> False | Inr v \<Rightarrow> py_any v = Inr True)"

definition mask_requested :: "pyval \<Rightarrow> bool" where
  "mask_requested d =
     ((has_key d ''maskAtRandom'' \<or> has_key d ''maskNSamples'') \<and>
      (any_entry d ''maskAtRandom'' \<or> any_entry d ''maskNSamples''))"

section \<open>Basic facts\<close>

lemma final_simps [simp]: "final (Inl (e, w)) = w" "final (Inr w) = w"
  by (simp_all add: final_def)

lemma returnedE: "returned r \<Longrightarrow> \<exists>w. r = Inr w"
  by (cases r) (auto simp: returned_def)

lemma run_steps_Inr:
  "run_steps (s # ss) w = Inr w' \<longleftrightarrow> (\<exists>w1. s w = Inr w1 \<and> run_steps ss w1 = Inr w')"
  by (auto split: sum.splits)

lemma run_steps_append:
  "run_steps (xs @ ys) w = (case run_steps xs w of Inl ew \<Rightarrow> Inl ew | Inr w1 \<Rightarrow> run_steps ys w1)"
  by (induction xs arbitrary: w) (auto split: sum.splits)

lemma run_steps_append_Inr:
  "run_steps (xs @ ys) w = Inr w' \<Longrightarrow> \<exists>w1. run_steps xs w = Inr w1 \<and> run_steps ys w1 = Inr w'"
  by (simp add: run_steps_append split: sum.splits)

lemma rel_run_steps:
  assumes refl: "\<And>w. R w w" and trans: "\<And>a b c. R a b \<Longrightarrow> R b c \<Longrightarrow> R a c"
    and steps: "\<And>s w. s \<in> set ss \<Longrightarrow> R w (final (s w))"
  shows "R w (final (run_steps ss w))"
  using steps
proof (induction ss arbitrary: w)
  case Nil
  then show ?case by (simp add: refl)
next
  case (Cons s ss)
  have h: "R w (final (s w))" using Cons.prems by simp
  show ?case
  proof (cases "s w")
    case (Inl ew)
    then show ?thesis using h by (simp add: final_def)
  next
    case (Inr w1)
    have "R w1 (final (run_steps ss w1))" using Cons by simp
    then show ?thesis using h Inr trans by (auto simp: final_def)
  qed
qed

lemma getitem_has_key: "getitem d k = Inr v \<Longrightarrow> has_key d k"
  by (cases d) (auto split: option.splits)

lemma missing_key: "has_key d k' \<Longrightarrow> \<not> has_key d k \<Longrightarrow> getitem d k = Inl (KeyError k)"
  by (cases d) (auto split: option.splits)

lemma eval_args_cong:
  "data_opts w' = data_opts w \<Longrightarrow> model_opts w' = model_opts w \<Longrightarrow> eval_args w' specs = eval_args w specs"
  by (induction specs) (auto split: opts.splits sum.splits)

lemma unique_sorted_list_of_set: "unique xs = sorted_list_of_set (set xs)"
  by (simp add: unique_def sorted_list_of_set_sort_remdups)

lemma unique_singleton: "set xs = {v} \<Longrightarrow> unique xs = [v]"
  by (simp add: unique_sorted_list_of_set)

lemma length_unique: "length (unique xs) = card (set xs)"
  by (simp add: unique_sorted_list_of_set)

lemma np_unique_numbers: "numbers sp = Some xs \<Longrightarrow> np_unique ev sp = Inr (map PReal (unique xs))"
  by (simp add: np_unique_def)

lemma np_unique_cong:
  "numbers sp = Some xs \<Longrightarrow> numbers sp' = Some ys \<Longrightarrow> set ys = set xs \<Longrightarrow>
     np_unique ev sp' = np_unique ev sp"
  by (simp add: np_unique_def unique_sorted_list_of_set)

lemma theta_init_ones: "set xs = {1} \<Longrightarrow> theta_init (map PReal (unique xs)) = Some ''initThetaMixed''"
  using unique_singleton [of xs 1] by (simp add: theta_init_def equals_number_def)

lemma theta_init_zeros: "set xs = {0} \<Longrightarrow> theta_init (map PReal (unique xs)) = Some ''initThetaConst''"
  using unique_singleton [of xs 0] by (simp add: theta_init_def equals_number_def)

lemma theta_init_several:
  "1 < card (set xs) \<Longrightarrow> theta_init (map PReal (unique xs)) = Some ''initThetaMixed''"
  by (simp add: theta_init_def length_unique)

subsection \<open>The two flat lists are the function\<close>

lemma build_flat: "build ev w = run_steps (build_steps ev) w"
  by (simp add: build_def define_model_def init_nodes_def define_markov_blankets_def build_steps_def
      run_steps_append split: sum.splits)

lemma runMOFA_flat: "runMOFA ev w = run_steps (build_steps ev @ train_steps ev) w"
  by (simp add: runMOFA_def start_training_def save_results_def train_steps_def build_flat
      run_steps_append split: sum.splits)

lemma runMOFA_after_seed:
  assumes "set_seed ev w = Inr w1"
  shows "runMOFA ev w =
     (case sanity_checks ev w1 of
        Inl ew \<Rightarrow> Inl ew
      | Inr w2 \<Rightarrow>
          run_steps [parse_data ev, define_model ev, add_nodes_to_network ev, start_training ev,
            save_results ev] w2)"
  using assms by (simp add: runMOFA_def build_def split: sum.splits)

subsection \<open>Every step only adds to the log and the output\<close>

lemma advances_refl [simp]: "advances w w"
  by (simp add: advances_def)

lemma advances_trans: "advances a b \<Longrightarrow> advances b c \<Longrightarrow> advances a c"
  by (auto simp: advances_def)

lemma advances_ext_call: "advances w (final (ext_call ev c w))"
  by (simp add: advances_def ext_call_def split: option.splits)

lemma advances_print_lines: "advances w (final (print_lines ls w))"
  by (simp add: advances_def print_lines_def)

lemma advances_set_seed: "advances w (final (set_seed ev w))"
  by (auto simp: set_seed_def advances_def ext_call_def split: option.splits sum.splits)

lemma advances_sanity_checks: "advances w (final (sanity_checks ev w))"
  by (auto simp: sanity_checks_def on_value_def advances_def ext_call_def split: option.splits sum.splits pyval.splits)

lemma advances_apply_maskData: "advances w (final (apply_maskData ev w))"
  by (auto simp: apply_maskData_def advances_def ext_call_def split: option.splits sum.splits)

lemma advances_parse_data: "advances w (final (parse_data ev w))"
  using advances_apply_maskData [of w ev]
  by (auto simp: parse_data_def on_value_def split: option.splits sum.splits pyval.splits)

lemma advances_building_banner: "advances w (final (building_banner w))"
  by (simp add: building_banner_def advances_print_lines)

lemma advances_print_seed: "advances w (final (print_seed w))"
  by (simp add: print_seed_def advances_print_lines split: option.splits)

lemma advances_new_initModel: "advances w (final (new_initModel ev w))"
  by (auto simp: new_initModel_def on_value_def advances_def ext_call_def split: option.splits sum.splits list.splits)

lemma advances_init_node: "advances w (final (init_node ev m n specs w))"
  by (auto simp: init_node_def on_value_def advances_def ext_call_def split: option.splits sum.splits)

lemma advances_init_Theta: "advances w (final (init_Theta ev w))"
  by (auto simp: init_Theta_def on_value_def advances_init_node split: option.splits sum.splits)

lemma advances_addMarkovBlanket: "advances w (final (addMarkovBlanket ev n kws w))"
  by (auto simp: addMarkovBlanket_def advances_def ext_call_def split: option.splits sum.splits)

lemma advances_add_nodes_to_network: "advances w (final (add_nodes_to_network ev w))"
  by (auto simp: add_nodes_to_network_def on_value_def advances_ext_call split: sum.splits)

lemma advances_save_model: "advances w (final (save_model ev w))"
  by (auto simp: save_model_def on_value_def print_lines_def advances_def ext_call_def
      split: option.splits sum.splits list.splits)

lemma step_advances:
  "s \<in> set (build_steps ev @ train_steps ev) \<Longrightarrow> advances w (final (s w))"
  by (auto simp: build_steps_def train_steps_def advances_set_seed advances_sanity_checks
      advances_parse_data advances_building_banner advances_print_seed advances_new_initModel
      advances_init_node advances_init_Theta advances_addMarkovBlanket advances_add_nodes_to_network
      advances_ext_call advances_save_model running_banner_def finished_banner_def advances_print_lines
      split: option.splits)

lemma steps_advance:
  assumes "set ss \<subseteq> set (build_steps ev @ train_steps ev)"
  shows "advances w (final (run_steps ss w))"
proof (rule rel_run_steps [where R = advances])
  show "\<And>w. advances w w" by simp
  show "\<And>a b c. advances a b \<Longrightarrow> advances b c \<Longrightarrow> advances a c" by (rule advances_trans)
  show "advances w (final (s w))" if "s \<in> set ss" for s w
    using subsetD [OF assms that] by (rule step_advances)
qed

lemma steps_advance_Inr:
  assumes "set ss \<subseteq> set (build_steps ev @ train_steps ev)" and "run_steps ss w = Inr w'"
  shows "advances w w'"
  using steps_advance [OF assms(1), of w] assms(2) by simp

subsection \<open>Only the first step touches the seed\<close>

lemma set_seed_calls:
  "calls (final (set_seed ev w)) = calls w @ [RandomSeed (seed_used ev (seed w))]"
  by (simp add: set_seed_def ext_call_def split: option.splits)

lemma set_seed_Inr:
  "set_seed ev w = Inr w1 \<Longrightarrow>
     seed w1 = Some (seed_used ev (seed w)) \<and> rng w1 = Some (seed_used ev (seed w)) \<and>
     data w1 = data w \<and> nodes w1 = nodes w \<and> out w1 = out w \<and> fs w1 = fs w"
  by (auto simp: set_seed_def ext_call_def split: option.splits)

lemma step_keeps_seed:
  "s \<in> set (tl (build_steps ev) @ train_steps ev) \<Longrightarrow> keeps_seed w (final (s w))"
  by (auto simp: build_steps_def train_steps_def keeps_seed_def sanity_checks_def parse_data_def
      apply_maskData_def building_banner_def print_seed_def new_initModel_def init_node_def
      init_Theta_def addMarkovBlanket_def add_nodes_to_network_def running_banner_def
      finished_banner_def save_model_def on_value_def ext_call_def print_lines_def
      split: option.splits sum.splits pyval.splits list.splits)

lemma steps_keep_seed:
  assumes "set ss \<subseteq> set (tl (build_steps ev) @ train_steps ev)"
  shows "keeps_seed w (final (run_steps ss w))"
proof (rule rel_run_steps [where R = keeps_seed])
  show "\<And>w. keeps_seed w w" by (simp add: keeps_seed_def)
  show "\<And>a b c. keeps_seed a b \<Longrightarrow> keeps_seed b c \<Longrightarrow> keeps_seed a c"
    by (simp add: keeps_seed_def)
  show "keeps_seed w (final (s w))" if "s \<in> set ss" for s w
    using subsetD [OF assms that] by (rule step_keeps_seed)
qed

lemma seed_line_printed:
  assumes ss: "set ss \<subseteq> set (build_steps ev @ train_steps ev)" and "seed w = Some s"
  shows "TextInt (''Setting random seed %i...'' @ nl) s
           \<in> set (out (final (run_steps (building_banner # print_seed # ss) w)))"
proof -
  obtain wa where a: "building_banner w = Inr wa" and sa: "seed wa = Some s"
    using assms by (simp add: building_banner_def print_lines_def)
  obtain wb where b: "print_seed wa = Inr wb"
    and ob: "out wb = out wa @ [TextInt (''Setting random seed %i...'' @ nl) s]"
    using sa by (simp add: print_seed_def print_lines_def)
  have "advances wb (final (run_steps ss wb))" using ss by (rule steps_advance)
  then have "prefix (out wb) (out (final (run_steps ss wb)))" by (simp add: advances_def)
  then have "TextInt (''Setting random seed %i...'' @ nl) s \<in> set (out (final (run_steps ss wb)))"
    using ob by (auto simp: prefix_def)
  then show ?thesis using a b by simp
qed

subsection \<open>The calls follow the sections of the function\<close>

lemma ordered_upto_mono: "ordered_upto p w \<Longrightarrow> p \<le> q \<Longrightarrow> ordered_upto q w"
  by (auto simp: ordered_upto_def list_all_iff)

lemma ordered_seq:
  assumes "ordered_upto q (final (s w))" and "q \<le> r"
    and "\<And>w1. ordered_upto q w1 \<Longrightarrow> ordered_upto r (final (run_steps ss w1))"
  shows "ordered_upto r (final (run_steps (s # ss) w))"
  using assms by (cases "s w") (auto simp: final_def intro: ordered_upto_mono)

lemma ordered_nil: "ordered_upto r w \<Longrightarrow> ordered_upto r (final (run_steps [] w))"
  by simp

lemma ordered_ext_call:
  "ordered_upto p w \<Longrightarrow> p \<le> phase c \<Longrightarrow> ordered_upto (phase c) (final (ext_call ev c w))"
  by (auto simp: ext_call_def ordered_upto_def list_all_iff sorted_append split: option.splits)

lemma ordered_print_lines: "ordered_upto p w \<Longrightarrow> ordered_upto p (final (print_lines ls w))"
  by (simp add: print_lines_def ordered_upto_def)

lemma ordered_set_seed: "ordered_upto 0 w \<Longrightarrow> ordered_upto 0 (final (set_seed ev w))"
  by (auto simp: set_seed_def ext_call_def ordered_upto_def list_all_iff sorted_append
      split: option.splits sum.splits)

lemma ordered_sanity_checks: "ordered_upto 0 w \<Longrightarrow> ordered_upto 1 (final (sanity_checks ev w))"
  by (auto simp: sanity_checks_def on_value_def ext_call_def ordered_upto_def list_all_iff sorted_append
      split: option.splits sum.splits pyval.splits)

lemma ordered_apply_maskData: "ordered_upto 1 w \<Longrightarrow> ordered_upto 2 (final (apply_maskData ev w))"
  by (auto simp: apply_maskData_def ext_call_def ordered_upto_def list_all_iff sorted_append
      split: option.splits sum.splits)

lemma ordered_parse_data: "ordered_upto 1 w \<Longrightarrow> ordered_upto 2 (final (parse_data ev w))"
  using ordered_apply_maskData [of w ev] ordered_upto_mono [of 1 w 2]
  by (auto simp: parse_data_def on_value_def split: option.splits sum.splits pyval.splits)

lemma ordered_front:
  assumes "ordered_upto 0 w"
  shows "ordered_upto 2 (final (run_steps [set_seed ev, sanity_checks ev, parse_data ev] w))"
  using assms
  by (intro ordered_seq [where q = 0 and r = 2 and s = "set_seed ev"]
        ordered_seq [where q = 1 and r = 2 and s = "sanity_checks ev"]
        ordered_seq [where q = 2 and r = 2] ordered_nil)
     (simp_all add: ordered_set_seed ordered_sanity_checks ordered_parse_data del: One_nat_def)

lemma ordered_new_initModel: "ordered_upto 2 w \<Longrightarrow> ordered_upto 3 (final (new_initModel ev w))"
  by (auto simp: new_initModel_def on_value_def ext_call_def ordered_upto_def list_all_iff sorted_append
      split: option.splits sum.splits list.splits)

lemma ordered_init_node:
  "ordered_upto p w \<Longrightarrow> p \<le> 4 \<Longrightarrow> ordered_upto 4 (final (init_node ev m n specs w))"
  by (auto simp: init_node_def on_value_def ext_call_def ordered_upto_def list_all_iff sorted_append
      split: option.splits sum.splits)

lemma ordered_init_Theta: "ordered_upto 4 w \<Longrightarrow> ordered_upto 4 (final (init_Theta ev w))"
  by (auto simp: init_Theta_def on_value_def ordered_init_node split: option.splits sum.splits)

lemma ordered_init_nodes: "ordered_upto 2 w \<Longrightarrow> ordered_upto 4 (final (init_nodes ev w))"
  unfolding init_nodes_def
  by (intro ordered_seq [where q = 3 and r = 4 and s = "new_initModel ev"]
        ordered_seq [where q = 4 and r = 4] ordered_nil)
     (simp_all add: ordered_new_initModel ordered_init_node ordered_init_Theta)

lemma ordered_addMarkovBlanket:
  "ordered_upto p w \<Longrightarrow> p \<le> 5 \<Longrightarrow> ordered_upto 5 (final (addMarkovBlanket ev n kws w))"
  by (auto simp: addMarkovBlanket_def ext_call_def ordered_upto_def list_all_iff sorted_append
      split: option.splits sum.splits)

lemma ordered_define_markov_blankets:
  "ordered_upto 4 w \<Longrightarrow> ordered_upto 5 (final (define_markov_blankets ev w))"
  unfolding define_markov_blankets_def
  by (intro ordered_seq [where q = 5 and r = 5] ordered_nil)
     (simp_all add: ordered_addMarkovBlanket)

lemma ordered_define_model: "ordered_upto 2 w \<Longrightarrow> ordered_upto 5 (final (define_model ev w))"
  unfolding define_model_def
  by (intro ordered_seq [where q = 2 and r = 5 and s = building_banner]
        ordered_seq [where q = 2 and r = 5 and s = print_seed]
        ordered_seq [where q = 4 and r = 5 and s = "init_nodes ev"]
        ordered_seq [where q = 5 and r = 5] ordered_nil)
     (simp_all add: building_banner_def print_seed_def ordered_print_lines ordered_init_nodes
        ordered_define_markov_blankets split: option.splits)

lemma ordered_add_nodes_to_network:
  "ordered_upto 5 w \<Longrightarrow> ordered_upto 6 (final (add_nodes_to_network ev w))"
  using ordered_ext_call [of 5 w "NewBayesNet x" ev for x] ordered_upto_mono [of 5 w 6]
  by (auto simp: add_nodes_to_network_def on_value_def split: sum.splits)

lemma ordered_build: "ordered_upto 0 w \<Longrightarrow> ordered_upto 6 (final (build ev w))"
  unfolding build_def
  by (intro ordered_seq [where q = 0 and r = 6 and s = "set_seed ev"]
        ordered_seq [where q = 1 and r = 6 and s = "sanity_checks ev"]
        ordered_seq [where q = 2 and r = 6 and s = "parse_data ev"]
        ordered_seq [where q = 5 and r = 6 and s = "define_model ev"]
        ordered_seq [where q = 6 and r = 6] ordered_nil)
     (simp_all add: ordered_set_seed ordered_sanity_checks ordered_parse_data ordered_define_model
        ordered_add_nodes_to_network del: One_nat_def)

lemma ordered_start_training: "ordered_upto 6 w \<Longrightarrow> ordered_upto 7 (final (start_training ev w))"
  unfolding start_training_def
  apply (intro ordered_seq [where q = 6 and r = 7 and s = running_banner]
        ordered_seq [where q = 7 and r = 7] ordered_nil)
  using ordered_ext_call [of 6 _ Iterate ev]
     apply (simp_all add: running_banner_def ordered_print_lines split: option.splits)
  done

lemma ordered_save_model: "ordered_upto 7 w \<Longrightarrow> ordered_upto 8 (final (save_model ev w))"
  by (auto simp: save_model_def on_value_def print_lines_def ext_call_def ordered_upto_def list_all_iff
      sorted_append split: option.splits sum.splits list.splits)

lemma ordered_save_results: "ordered_upto 7 w \<Longrightarrow> ordered_upto 8 (final (save_results ev w))"
  unfolding save_results_def
  by (intro ordered_seq [where q = 7 and r = 8 and s = finished_banner]
        ordered_seq [where q = 8 and r = 8] ordered_nil)
     (simp_all add: finished_banner_def ordered_print_lines ordered_save_model)

lemma ordered_runMOFA: "ordered_upto 0 w \<Longrightarrow> ordered_upto 8 (final (runMOFA ev w))"
  unfolding runMOFA_def
  by (intro ordered_seq [where q = 6 and r = 8 and s = "build ev"]
        ordered_seq [where q = 7 and r = 8 and s = "start_training ev"]
        ordered_seq [where q = 8 and r = 8] ordered_nil)
     (simp_all add: ordered_build ordered_start_training ordered_save_results)

lemma step_adds_from:
  "s \<in> set (drop 3 (build_steps ev) @ train_steps ev) \<Longrightarrow> adds_from 3 w (final (s w))"
  by (auto simp: build_steps_def train_steps_def adds_from_def
      building_banner_def print_seed_def new_initModel_def init_node_def
      init_Theta_def addMarkovBlanket_def add_nodes_to_network_def running_banner_def
      finished_banner_def save_model_def on_value_def ext_call_def print_lines_def
      split: option.splits sum.splits pyval.splits list.splits)

lemma steps_add_from:
  assumes "set ss \<subseteq> set (drop 3 (build_steps ev) @ train_steps ev)"
  shows "adds_from 3 w (final (run_steps ss w))"
proof (rule rel_run_steps [where R = "adds_from 3"])
  show "\<And>w. adds_from 3 w w" by (simp add: adds_from_def)
  show "adds_from 3 a c" if "adds_from 3 a b" and "adds_from 3 b c" for a b c
    using that by (auto simp: adds_from_def)
  show "adds_from 3 w (final (s w))" if "s \<in> set ss" for s w
    using subsetD [OF assms that] by (rule step_adds_from)
qed

lemma ordered_seed_sanity:
  assumes "ordered_upto 0 w"
  shows "ordered_upto 1 (final (run_steps [set_seed ev, sanity_checks ev] w))"
  using assms
  by (intro ordered_seq [where q = 0 and r = 1 and s = "set_seed ev"]
        ordered_seq [where q = 1 and r = 1] ordered_nil)
     (simp_all add: ordered_set_seed ordered_sanity_checks del: One_nat_def)

subsection \<open>The sanity checks and the masking\<close>

lemma sanity_checks_Inr:
  assumes "getitem (data_opts w) ''outfile'' = Inr (PStr p)" and "sanity_checks ev w = Inr w'"
  shows "(if dirname p \<in> fs w then w' = w
          else w' = w\<lparr>out := out w @ [Text ''Output directory does not exist, creating it...''],
                      calls := calls w @ [MakeDirs (dirname p)],
                      fs := insert (dirname p) (fs w)\<rparr>)"
  using assms by (auto simp: sanity_checks_def on_value_def ext_call_def split: option.splits)

lemma sanity_checks_frame:
  "data (final (sanity_checks ev w)) = data w \<and>
   data_opts (final (sanity_checks ev w)) = data_opts w \<and>
   model_opts (final (sanity_checks ev w)) = model_opts w \<and>
   train_opts (final (sanity_checks ev w)) = train_opts w \<and>
   seed (final (sanity_checks ev w)) = seed w \<and>
   rng (final (sanity_checks ev w)) = rng w \<and>
   nodes (final (sanity_checks ev w)) = nodes w"
  by (auto simp: sanity_checks_def on_value_def ext_call_def
      split: option.splits sum.splits pyval.splits)

lemma parse_data_masks_iff:
  assumes "parse_data ev w = Inr w'" and "MaskData \<notin> set (calls w)"
  shows "MaskData \<in> set (calls w') \<longleftrightarrow> mask_requested (data_opts w)"
  using assms
  by (auto simp: parse_data_def on_value_def apply_maskData_def ext_call_def mask_requested_def
      any_entry_def dest: getitem_has_key split: sum.splits option.splits if_splits)

lemma parse_data_masked:
  assumes "parse_data ev w = Inr w'" and "mask_requested (data_opts w)"
  shows "data w' = maskData ev (data w) (data_opts w)"
  using assms
  by (auto simp: parse_data_def on_value_def apply_maskData_def ext_call_def mask_requested_def
      any_entry_def dest: getitem_has_key split: sum.splits option.splits if_splits)

lemma parse_data_KeyError:
  assumes "has_key (data_opts w) ''maskNSamples''" and "\<not> has_key (data_opts w) ''maskAtRandom''"
  shows "parse_data ev w = Inl (KeyError ''maskAtRandom'', w)"
  using assms missing_key [OF assms]
  by (simp add: parse_data_def on_value_def)

lemma runMOFA_masks_iff:
  assumes e: "calls w = []"
    and r: "run_steps [set_seed ev, sanity_checks ev] w = Inr w2"
    and p: "parse_data ev w2 = Inr w3"
  shows "MaskData \<in> set (calls (final (runMOFA ev w))) \<longleftrightarrow> mask_requested (data_opts w)"
proof -
  define rest where "rest = drop 3 (build_steps ev) @ train_steps ev"
  have split: "build_steps ev @ train_steps ev =
      [set_seed ev, sanity_checks ev] @ [parse_data ev] @ rest"
    by (simp add: build_steps_def rest_def)
  have "advances w w2"
    by (rule steps_advance_Inr [OF _ r, of ev]) (simp add: build_steps_def)
  then have d: "data_opts w2 = data_opts w" by (simp add: advances_def)
  have "ordered_upto 0 w" using e by (simp add: ordered_upto_def)
  then have "ordered_upto 1 (final (run_steps [set_seed ev, sanity_checks ev] w))"
    by (rule ordered_seed_sanity)
  then have "list_all (\<lambda>c. phase c \<le> 1) (calls w2)" using r by (simp add: ordered_upto_def)
  then have n: "MaskData \<notin> set (calls w2)" by (auto simp: list_all_iff)
  have m: "MaskData \<in> set (calls w3) \<longleftrightarrow> mask_requested (data_opts w)"
    using parse_data_masks_iff [OF p n] d by simp
  have run: "runMOFA ev w = run_steps rest w3"
    using r p by (simp only: runMOFA_flat split run_steps_append sum.case run_steps.simps)
  have "adds_from 3 w3 (final (run_steps rest w3))"
    by (rule steps_add_from [of _ ev]) (simp add: rest_def)
  then obtain l where l: "calls (final (run_steps rest w3)) = calls w3 @ l"
    and ge: "list_all (\<lambda>c. 3 \<le> phase c) l"
    by (auto simp: adds_from_def)
  from ge have "MaskData \<notin> set l" by (auto simp: list_all_iff)
  then show ?thesis using m l run by simp
qed

subsection \<open>The registry after the nodes are made and wired\<close>

lemma new_initModel_Inr: "new_initModel ev w = Inr w' \<Longrightarrow> nodes w' = []"
  by (auto simp: new_initModel_def on_value_def ext_call_def split: list.splits sum.splits option.splits)

lemma init_node_Inr:
  "init_node ev m n specs w = Inr w' \<Longrightarrow>
     nodes w' = AList.update n (fresh m) (nodes w) \<and>
     (\<exists>kws. eval_args w specs = Inr kws \<and> calls w' = calls w @ [Init m kws])"
  by (auto simp: init_node_def on_value_def ext_call_def fresh_def split: sum.splits option.splits)

lemma init_Theta_Inr:
  "init_Theta ev w = Inr w' \<Longrightarrow>
     nodes w' = nodes w \<or> (\<exists>m. nodes w' = AList.update ''Theta'' (fresh m) (nodes w))"
  by (auto simp: init_Theta_def on_value_def dest: init_node_Inr split: sum.splits option.splits)

lemma addMarkovBlanket_Inr:
  "addMarkovBlanket ev n kws w = Inr w' \<Longrightarrow>
     list_all (\<lambda>k. map_of (nodes w) k \<noteq> None) (n # map snd kws) \<and>
     nodes w' = AList.map_entry n (\<lambda>nd. nd\<lparr>markov_blanket := kws\<rparr>) (nodes w)"
  by (auto simp: addMarkovBlanket_def ext_call_def find_None_iff list_all_iff
      split: sum.splits option.splits if_splits)

lemma init_nodes_Inr:
  assumes "init_nodes ev w = Inr w'"
  shows "\<exists>th. nodes w' =
           [(''Z'', fresh ''initZ''), (''SW'', fresh ''initSW''), (''AlphaW'', fresh ''initAlphaW_mk''),
            (''Tau'', fresh ''initTau'')] @ th @ [(''Y'', fresh ''initY'')] \<and>
           (th = [] \<or> (\<exists>m. th = [(''Theta'', fresh m)]))"
proof -
  from assms obtain w1 w2 w3 w4 w5 w6 where
    s1: "new_initModel ev w = Inr w1" and
    s2: "init_node ev ''initZ'' ''Z'' initZ_args w1 = Inr w2" and
    s3: "init_node ev ''initSW'' ''SW'' initSW_args w2 = Inr w3" and
    s4: "init_node ev ''initAlphaW_mk'' ''AlphaW'' initAlphaW_mk_args w3 = Inr w4" and
    s5: "init_node ev ''initTau'' ''Tau'' initTau_args w4 = Inr w5" and
    s6: "init_Theta ev w5 = Inr w6" and
    s7: "init_node ev ''initY'' ''Y'' [] w6 = Inr w'"
    unfolding init_nodes_def run_steps_Inr by auto
  have n5: "nodes w5 =
      [(''Z'', fresh ''initZ''), (''SW'', fresh ''initSW''), (''AlphaW'', fresh ''initAlphaW_mk''),
       (''Tau'', fresh ''initTau'')]"
    using new_initModel_Inr [OF s1] init_node_Inr [OF s2] init_node_Inr [OF s3]
      init_node_Inr [OF s4] init_node_Inr [OF s5] by simp
  from init_Theta_Inr [OF s6] show ?thesis
  proof
    assume "nodes w6 = nodes w5"
    then show ?thesis using n5 init_node_Inr [OF s7] by simp
  next
    assume "\<exists>m. nodes w6 = AList.update ''Theta'' (fresh m) (nodes w5)"
    then obtain m where "nodes w6 = AList.update ''Theta'' (fresh m) (nodes w5)" ..
    then show ?thesis using n5 init_node_Inr [OF s7] by auto
  qed
qed

lemma define_markov_blankets_Inr:
  assumes "define_markov_blankets ev w = Inr w'"
    and "nodes w =
           [(''Z'', fresh ''initZ''), (''SW'', fresh ''initSW''), (''AlphaW'', fresh ''initAlphaW_mk''),
            (''Tau'', fresh ''initTau'')] @ th @ [(''Y'', fresh ''initY'')]"
    and "th = [] \<or> (\<exists>m. th = [(''Theta'', fresh m)])"
  shows "\<exists>m. nodes w' = wired m"
proof -
  from assms(1) obtain w1 w2 w3 w4 w5 where
    s1: "addMarkovBlanket ev ''Z'' [(''SW'', ''SW''), (''Tau'', ''Tau''), (''Y'', ''Y'')] w = Inr w1" and
    s2: "addMarkovBlanket ev ''Theta'' [(''SW'', ''SW'')] w1 = Inr w2" and
    s3: "addMarkovBlanket ev ''AlphaW'' [(''SW'', ''SW'')] w2 = Inr w3" and
    s4: "addMarkovBlanket ev ''SW''
          [(''Z'', ''Z''), (''Tau'', ''Tau''), (''Alpha'', ''AlphaW''), (''Y'', ''Y''), (''Theta'', ''Theta'')] w3 = Inr w4" and
    s5: "addMarkovBlanket ev ''Y'' [(''Z'', ''Z''), (''SW'', ''SW''), (''Tau'', ''Tau'')] w4 = Inr w5" and
    s6: "addMarkovBlanket ev ''Tau'' [(''Z'', ''Z''), (''SW'', ''SW''), (''Y'', ''Y'')] w5 = Inr w'"
    unfolding define_markov_blankets_def run_steps_Inr by auto
  from assms(3) show ?thesis
  proof
    assume th: "th = []"
    have "nodes w1 = AList.map_entry ''Z'' (\<lambda>nd. nd\<lparr>markov_blanket := [(''SW'', ''SW''), (''Tau'', ''Tau''), (''Y'', ''Y'')]\<rparr>) (nodes w)"
      using addMarkovBlanket_Inr [OF s1] by simp
    then have "map_of (nodes w1) ''Theta'' = None"
      using assms(2) th by (simp add: fresh_def)
    then show ?thesis using addMarkovBlanket_Inr [OF s2] by simp
  next
    assume "\<exists>m. th = [(''Theta'', fresh m)]"
    then obtain m where th: "th = [(''Theta'', fresh m)]" ..
    have "nodes w' = wired m"
      using addMarkovBlanket_Inr [OF s1] addMarkovBlanket_Inr [OF s2] addMarkovBlanket_Inr [OF s3]
        addMarkovBlanket_Inr [OF s4] addMarkovBlanket_Inr [OF s5] addMarkovBlanket_Inr [OF s6]
        assms(2) th
      by (simp add: fresh_def wired_def)
    then show ?thesis ..
  qed
qed

lemma define_model_Inr:
  assumes "define_model ev w = Inr w'"
  shows "\<exists>m. nodes w' = wired m"
proof -
  from assms obtain w1 w2 w3 where
    "building_banner w = Inr w1" and "print_seed w1 = Inr w2" and
    "init_nodes ev w2 = Inr w3" and "define_markov_blankets ev w3 = Inr w'"
    unfolding define_model_def run_steps_Inr by auto
  then show ?thesis using init_nodes_Inr define_markov_blankets_Inr by blast
qed

lemma add_nodes_to_network_Inr: "add_nodes_to_network ev w = Inr w' \<Longrightarrow> nodes w' = nodes w"
  by (auto simp: add_nodes_to_network_def on_value_def ext_call_def split: sum.splits option.splits)

lemma build_Inr:
  assumes "build ev w = Inr w'"
  shows "\<exists>m. nodes w' = wired m"
proof -
  from assms obtain w1 w2 w3 w4 where
    "set_seed ev w = Inr w1" and "sanity_checks ev w1 = Inr w2" and "parse_data ev w2 = Inr w3" and
    "define_model ev w3 = Inr w4" and "add_nodes_to_network ev w4 = Inr w'"
    unfolding build_def run_steps_Inr by auto
  then show ?thesis using define_model_Inr add_nodes_to_network_Inr by metis
qed

subsection \<open>What the initialisers are called with\<close>

lemma init_node_call:
  assumes "eval_args w specs = Inr kws"
  shows "calls (final (init_node ev m n specs w)) = calls w @ [Init m kws]"
    and "raised (init_node ev m n specs w) = raises ev (Init m kws) w"
    and "returned (init_node ev m n specs w) \<Longrightarrow>
           nodes (final (init_node ev m n specs w)) = AList.update n (fresh m) (nodes w)"
  using assms
  by (simp_all add: init_node_def on_value_def ext_call_def raised_def returned_def fresh_def
      split: option.splits)

lemma init_Theta_numbers:
  assumes "getitem (model_opts w) ''sparsity'' = Inr sp" and "numbers sp = Some xs"
  shows "init_Theta ev w =
     (case theta_init (map PReal (unique xs)) of
        None \<Rightarrow> Inr w
      | Some meth \<Rightarrow> init_node ev meth ''Theta'' (theta_args meth) w)"
  using assms by (simp add: init_Theta_def on_value_def np_unique_numbers)

lemma initThetaConst_kwargs:
  assumes "getitem (model_opts w) ''initTheta'' = Inr it" and "getitem it ''E'' = Inr qE"
  shows "eval_args w initThetaConst_args = Inr [(''value'', qE)]"
  using assms by (simp add: initThetaConst_args_def)

lemma initThetaMixed_kwargs:
  assumes "getitem (model_opts w) ''sparsity'' = Inr sp"
    and "getitem (model_opts w) ''priorTheta'' = Inr pt"
    and "getitem pt ''a'' = Inr pa" and "getitem pt ''b'' = Inr pb"
    and "getitem (model_opts w) ''initTheta'' = Inr it"
    and "getitem it ''a'' = Inr qa" and "getitem it ''b'' = Inr qb" and "getitem it ''E'' = Inr qE"
  shows "eval_args w initThetaMixed_args =
           Inr [(''pa'', pa), (''pb'', pb), (''qa'', qa), (''qb'', qb), (''qE'', qE), (''sparsity'', sp)]"
  using assms by (simp add: initThetaMixed_args_def)

text \<open>
  A list with rows of different lengths is not an array of numbers: what
  \<^verbatim>\<open>scipy.unique\<close> makes of it is the environment's answer. A sparsity option that is
  \<^verbatim>\<open>None\<close> is one entry equal to no number: no initialiser is called.
\<close>

lemma ragged_sparsity_is_no_array:
  "numbers (PList [PList [PReal 0, PReal 0], PList [PReal 0]]) = None \<and>
   np_unique ev (PList [PList [PReal 0, PReal 0], PList [PReal 0]]) =
     unique_objects ev (PList [PList [PReal 0, PReal 0], PList [PReal 0]]) \<and>
   np_unique spec_env (PList [PList [PReal 0, PReal 0], PList [PReal 0]]) =
     Inr [PList [PReal 0, PReal 0], PList [PReal 0]] \<and>
   calls (final (init_Theta spec_env (theta_world (PList [PList [PReal 0, PReal 0], PList [PReal 0]])))) =
     [Init ''initThetaMixed''
        [(''pa'', PReal 1), (''pb'', PReal 2), (''qa'', PReal 3), (''qb'', PReal 4), (''qE'', PReal 5),
         (''sparsity'', PList [PList [PReal 0, PReal 0], PList [PReal 0]])]]"
  by (simp add: numbers_def np_unique_def spec_env_def init_Theta_def on_value_def theta_world_def
      sample_world_def theta_init_def theta_args_def initThetaMixed_args_def init_node_def
      ext_call_def)

lemma sparsity_None_calls_no_initialiser:
  "init_Theta ev (theta_world PNone) = Inr (theta_world PNone)"
  by (simp add: numbers_def np_unique_def init_Theta_def on_value_def theta_world_def
      sample_world_def theta_init_def equals_number_def)

subsection \<open>Errors while the model is built\<close>

lemma first_steps_keep_options:
  assumes "run_steps [set_seed ev, sanity_checks ev, parse_data ev, building_banner, print_seed] w = Inr w1"
  shows "model_opts w1 = model_opts w"
proof -
  have "advances w w1"
    by (rule steps_advance_Inr [OF _ assms, of ev]) (simp add: build_steps_def)
  then show ?thesis by (simp add: advances_def)
qed

lemma new_initModel_rejected:
  assumes "getitem (model_opts w) ''likelihoods'' = Inr liks"
    and "\<forall>M N D K sd w1. raises ev (InitModel M N D K liks sd) w1 \<noteq> None"
  shows "\<exists>ew. new_initModel ev w = Inl ew"
proof (cases "data w")
  case Nil
  then show ?thesis by (simp add: new_initModel_def)
next
  case (Cons v0 vs)
  show ?thesis
  proof (cases "getitem (model_opts w) ''factors''")
    case (Inl e)
    then show ?thesis using Cons by (simp add: new_initModel_def on_value_def)
  next
    case (Inr K)
    from assms(2) obtain e where
      "raises ev (InitModel (length (data w)) (fst (shape v0)) (map (\<lambda>v. snd (shape v)) (data w))
         K liks (seed w)) w = Some e"
      by (meson not_None_eq)
    then show ?thesis
      using Cons Inr assms(1) by (simp add: new_initModel_def on_value_def ext_call_def)
  qed
qed

lemma build_rejected:
  assumes "getitem (model_opts w) ''likelihoods'' = Inr liks"
    and "\<forall>M N D K sd w1. raises ev (InitModel M N D K liks sd) w1 \<noteq> None"
  shows "\<exists>ew. build ev w = Inl ew"
proof -
  define front where
    "front = [set_seed ev, sanity_checks ev, parse_data ev, building_banner, print_seed]"
  define rest where "rest = drop 6 (build_steps ev)"
  have split: "build_steps ev = front @ new_initModel ev # rest"
    by (simp add: build_steps_def front_def rest_def)
  show ?thesis
  proof (cases "run_steps front w")
    case (Inl ew)
    then have "build ev w = Inl ew"
      by (simp only: build_flat split run_steps_append sum.case)
    then show ?thesis by (rule exI [of _ ew])
  next
    case (Inr w1)
    then have "model_opts w1 = model_opts w"
      unfolding front_def by (rule first_steps_keep_options)
    then obtain ew where ew: "new_initModel ev w1 = Inl ew"
      using new_initModel_rejected [of w1 liks ev] assms by auto
    have "build ev w = Inl ew"
      using Inr ew by (simp only: build_flat split run_steps_append sum.case run_steps.simps)
    then show ?thesis by (rule exI [of _ ew])
  qed
qed

lemma map_entry_keeps_names: "map_of (AList.map_entry n f xs) k = None \<longleftrightarrow> map_of xs k = None"
  by (induction xs) auto

lemma define_markov_blankets_needs_nodes:
  assumes "define_markov_blankets ev w = Inr w'"
  shows "list_all (\<lambda>k. map_of (nodes w) k \<noteq> None) [''Z'', ''Theta'', ''AlphaW'', ''SW'', ''Y'', ''Tau'']"
proof -
  from assms obtain w1 w2 w3 w4 w5 where
    s1: "addMarkovBlanket ev ''Z'' [(''SW'', ''SW''), (''Tau'', ''Tau''), (''Y'', ''Y'')] w = Inr w1" and
    s2: "addMarkovBlanket ev ''Theta'' [(''SW'', ''SW'')] w1 = Inr w2" and
    s3: "addMarkovBlanket ev ''AlphaW'' [(''SW'', ''SW'')] w2 = Inr w3" and
    s4: "addMarkovBlanket ev ''SW''
          [(''Z'', ''Z''), (''Tau'', ''Tau''), (''Alpha'', ''AlphaW''), (''Y'', ''Y''), (''Theta'', ''Theta'')] w3 = Inr w4" and
    s5: "addMarkovBlanket ev ''Y'' [(''Z'', ''Z''), (''SW'', ''SW''), (''Tau'', ''Tau'')] w4 = Inr w5" and
    s6: "addMarkovBlanket ev ''Tau'' [(''Z'', ''Z''), (''SW'', ''SW''), (''Y'', ''Y'')] w5 = Inr w'"
    unfolding define_markov_blankets_def run_steps_Inr by auto
  show ?thesis
    using addMarkovBlanket_Inr [OF s1] addMarkovBlanket_Inr [OF s2] addMarkovBlanket_Inr [OF s3]
    by (simp add: map_entry_keeps_names)
qed

lemma build_after_nodes:
  assumes "run_steps [set_seed ev, sanity_checks ev, parse_data ev, building_banner, print_seed,
             init_nodes ev] w = Inr w1"
  shows "build ev w =
     (case define_markov_blankets ev w1 of Inl ew \<Rightarrow> Inl ew | Inr w2 \<Rightarrow> add_nodes_to_network ev w2)"
proof -
  from assms obtain a b c d e where
    "set_seed ev w = Inr a" and "sanity_checks ev a = Inr b" and "parse_data ev b = Inr c" and
    "building_banner c = Inr d" and "print_seed d = Inr e" and "init_nodes ev e = Inr w1"
    unfolding run_steps_Inr by auto
  then show ?thesis by (simp add: build_def define_model_def split: sum.splits)
qed

lemma build_missing_node:
  assumes "run_steps [set_seed ev, sanity_checks ev, parse_data ev, building_banner, print_seed,
             init_nodes ev] w = Inr w1"
    and "k \<in> set [''Z'', ''Theta'', ''AlphaW'', ''SW'', ''Y'', ''Tau'']"
    and "map_of (nodes w1) k = None"
  shows "\<exists>ew. build ev w = Inl ew"
proof (cases "define_markov_blankets ev w1")
  case (Inl ew)
  then have "build ev w = Inl ew" by (simp add: build_after_nodes [OF assms(1)])
  then show ?thesis by (rule exI [of _ ew])
next
  case (Inr w2)
  from define_markov_blankets_needs_nodes [OF Inr] assms(2,3) have False
    by (auto simp: list_all_iff)
  then show ?thesis ..
qed

lemma build_raised_before_iterate:
  assumes "build ev w = Inl (e, w')" and "calls w = []"
  shows "runMOFA ev w = Inl (e, w') \<and> Iterate \<notin> set (calls w')"
proof -
  have "ordered_upto 0 w" using assms(2) by (simp add: ordered_upto_def)
  then have "ordered_upto 6 (final (build ev w))" by (rule ordered_build)
  then have "list_all (\<lambda>c. phase c \<le> 6) (calls w')" using assms(1) by (simp add: ordered_upto_def)
  then have "Iterate \<notin> set (calls w')" by (auto simp: list_all_iff)
  moreover have "runMOFA ev w = Inl (e, w')" using assms(1) by (simp add: runMOFA_def)
  ultimately show ?thesis by simp
qed

lemma build_raised_run_raised:
  assumes "\<exists>ew. build ev w = Inl ew" and "calls w = []"
  shows "raised (runMOFA ev w) \<noteq> None \<and> Iterate \<notin> set (calls (final (runMOFA ev w)))"
proof -
  from assms(1) obtain e w' where b: "build ev w = Inl (e, w')" by auto
  show ?thesis using build_raised_before_iterate [OF b assms(2)] by (simp add: raised_def)
qed

subsection \<open>The clock is read only when no seed is given\<close>

lemma ext_call_ignores_clock: "ext_call (ev\<lparr>time := t\<rparr>) = ext_call ev"
  by (simp add: fun_eq_iff ext_call_def)

lemma maskData_ignores_clock: "maskData (ev\<lparr>time := t\<rparr>) = maskData ev"
  by simp

lemma np_unique_ignores_clock: "np_unique (ev\<lparr>time := t\<rparr>) = np_unique ev"
  by (simp add: fun_eq_iff np_unique_def split: option.splits pyval.splits)

lemma later_steps_ignore_clock:
  "tl (build_steps (ev\<lparr>time := t\<rparr>)) @ train_steps (ev\<lparr>time := t\<rparr>) = tl (build_steps ev) @ train_steps ev"
  unfolding build_steps_def train_steps_def sanity_checks_def parse_data_def
      apply_maskData_def new_initModel_def init_node_def init_Theta_def addMarkovBlanket_def
      add_nodes_to_network_def save_model_def ext_call_ignores_clock maskData_ignores_clock
      np_unique_ignores_clock
  by simp

lemma set_seed_ignores_clock:
  "seed w = Some n \<Longrightarrow> n \<noteq> 0 \<Longrightarrow> set_seed (ev\<lparr>time := t\<rparr>) w = set_seed ev w"
  by (simp add: set_seed_def seed_used_def ext_call_ignores_clock)

lemma nonzero_seed_ignores_clock:
  assumes "seed w = Some n" and "n \<noteq> 0"
  shows "runMOFA (ev\<lparr>time := t\<rparr>) w = runMOFA ev w"
proof -
  have h: "runMOFA e w =
      (case set_seed e w of
         Inl ew \<Rightarrow> Inl ew
       | Inr w1 \<Rightarrow> run_steps (tl (build_steps e) @ train_steps e) w1)" for e
    by (simp add: runMOFA_flat build_steps_def split: sum.splits)
  show ?thesis
    by (simp only: h later_steps_ignore_clock set_seed_ignores_clock [OF assms])
qed

subsection \<open>The sample runs, evaluated\<close>

lemma foo_world_raises:
  "(case build spec_env foo_world of
      Inl ew \<Rightarrow> fst ew = Raised ''unknown likelihood''
    | Inr w \<Rightarrow> False)"
  by code_simp

lemma foo_world_build:
  "\<exists>w'. build spec_env foo_world = Inl (Raised ''unknown likelihood'', w')"
  using foo_world_raises by (cases "build spec_env foo_world") auto

lemma half_world_raises:
  "(case build spec_env half_world of
      Inl ew \<Rightarrow> fst ew = KeyError ''Theta''
    | Inr w \<Rightarrow> False)"
  by code_simp

lemma half_world_build: "\<exists>w'. build spec_env half_world = Inl (KeyError ''Theta'', w')"
  using half_world_raises by (cases "build spec_env half_world") auto

lemma ok_world_returns: "(case build spec_env ok_world of Inl ew \<Rightarrow> False | Inr w \<Rightarrow> True)"
  by code_simp

lemma ok_world_build: "\<exists>w'. build spec_env ok_world = Inr w'"
  using ok_world_returns by (cases "build spec_env ok_world") auto

lemma ok_world_trains:
  "(case runMOFA spec_env ok_world of Inl ew \<Rightarrow> False | Inr w \<Rightarrow> Iterate \<in> set (calls w))"
  by code_simp

lemma half_world_nodes:
  "(case run_steps [set_seed spec_env, sanity_checks spec_env, parse_data spec_env, building_banner,
       print_seed, init_nodes spec_env] half_world of
      Inl ew \<Rightarrow> False
    | Inr w \<Rightarrow> map_of (nodes w) ''Theta'' = None)"
  by code_simp

lemma no_view_names_eval:
  "(case runMOFA spec_env no_view_names_world of
      Inl ew \<Rightarrow> fst ew = KeyError ''view_names'' \<and> Iterate \<in> set (calls (snd ew))
    | Inr w \<Rightarrow> False)"
  by code_simp

lemma lax_foo_eval:
  "(case runMOFA lax_env foo_world of Inl ew \<Rightarrow> False | Inr w \<Rightarrow> Iterate \<in> set (calls w))"
  by code_simp

lemma ok_world_sanity: "returned (sanity_checks spec_env ok_world) \<and> returned (set_seed spec_env ok_world)"
  by code_simp

lemma dirname_sample: "dirname ''/tmp/out/model.h5'' = ''/tmp/out''"
  by (simp add: dirname_def)

lemma half_world_eval:
  "(case runMOFA spec_env half_world of
      Inl ew \<Rightarrow>
        fst ew = KeyError ''Theta'' \<and>
        map fst (nodes (snd ew)) = [''Z'', ''SW'', ''AlphaW'', ''Tau'', ''Y''] \<and>
        map (\<lambda>p. made_by (snd p)) (nodes (snd ew)) =
          [''initZ'', ''initSW'', ''initAlphaW_mk'', ''initTau'', ''initY''] \<and>
        map phase (calls (snd ew)) = [0, 1, 3, 4, 4, 4, 4, 4, 5] \<and>
        last (calls (snd ew)) = AddMarkovBlanket ''Z'' [(''SW'', ''SW''), (''Tau'', ''Tau''), (''Y'', ''Y'')]
    | Inr w \<Rightarrow> False)"
  by code_simp

lemma half_world_theta: "init_Theta spec_env half_world = Inr half_world"
  by (simp add: init_Theta_def on_value_def half_world_def sample_world_def sample_model_opts_def
      half_sparsity_def np_unique_def numbers_def theta_init_def equals_number_def unique_def)

lemma ard_world_eval:
  "(case build spec_env (ard_world ''k'') of
      Inl ew \<Rightarrow> False
    | Inr w \<Rightarrow> map_of (nodes w) ''AlphaW'' = Some \<lparr>made_by = ''initAlphaW_mk'', markov_blanket = [(''SW'', ''SW'')]\<rparr>) \<and>
   (case build spec_env (ard_world ''m'') of
      Inl ew \<Rightarrow> False
    | Inr w \<Rightarrow> map_of (nodes w) ''AlphaW'' = Some \<lparr>made_by = ''initAlphaW_mk'', markov_blanket = [(''SW'', ''SW'')]\<rparr>)"
  by code_simp

lemma clock_world_eval:
  "returned (set_seed spec_env clock_world) \<and>
   returned (run_steps [set_seed spec_env, sanity_checks spec_env, parse_data spec_env] clock_world)"
  by code_simp

lemma spec_clock: "round (time spec_env * 1000) mod 1000000 = 123456"
  by (simp add: spec_env_def)

lemma masking_world_eval:
  "returned (run_steps [set_seed spec_env, sanity_checks spec_env, parse_data spec_env] masking_world)"
  by code_simp

lemma nsamples_world_eval:
  "returned (run_steps [set_seed spec_env, sanity_checks spec_env] nsamples_world) \<and>
   returned (parse_data spec_env masking_world)"
  by code_simp

section \<open>The claims\<close>

text \<open>
  C1, as the code has it. \<open>runMOFA\<close> checks no likelihood tag and no dimension itself and
  has no handler. Every error raised on lines 28 to 132 ends \<open>runMOFA\<close> with that error,
  with no call of \<^verbatim>\<open>net.iterate()\<close> (line 145) made; \<open>iterate\<close> is called only after
  every one of those lines has returned, with the six nodes wired. So when \<open>initModel\<close>
  rejects the likelihoods it is given, \<open>runMOFA\<close> raises before \<open>iterate\<close>; and when the
  wiring of lines 119 to 125 starts with one of the six names not in the registry,
  \<open>runMOFA\<close> raises before \<open>iterate\<close>.
\<close>

theorem errors_while_building_end_the_run:
  assumes "calls w = []"
  shows
    "(\<forall>e w'. build ev w = Inl (e, w') \<longrightarrow> runMOFA ev w = Inl (e, w') \<and> Iterate \<notin> set (calls w')) \<and>
     (Iterate \<in> set (calls (final (runMOFA ev w))) \<longrightarrow>
        returned (build ev w) \<and> (\<exists>m. nodes (final (build ev w)) = wired m)) \<and>
     (\<forall>liks.
        getitem (model_opts w) ''likelihoods'' = Inr liks \<and>
        (\<forall>M N D K sd w1. raises ev (InitModel M N D K liks sd) w1 \<noteq> None) \<longrightarrow>
        raised (runMOFA ev w) \<noteq> None \<and> Iterate \<notin> set (calls (final (runMOFA ev w)))) \<and>
     (\<forall>w1 k.
        run_steps [set_seed ev, sanity_checks ev, parse_data ev, building_banner, print_seed,
          init_nodes ev] w = Inr w1 \<and>
        k \<in> set [''Z'', ''Theta'', ''AlphaW'', ''SW'', ''Y'', ''Tau''] \<and> map_of (nodes w1) k = None \<longrightarrow>
        raised (runMOFA ev w) \<noteq> None \<and> Iterate \<notin> set (calls (final (runMOFA ev w))))"
proof -
  have c1: "\<forall>e w'. build ev w = Inl (e, w') \<longrightarrow> runMOFA ev w = Inl (e, w') \<and> Iterate \<notin> set (calls w')"
    using build_raised_before_iterate [OF _ assms] by blast
  have c2: "Iterate \<in> set (calls (final (runMOFA ev w))) \<longrightarrow>
        returned (build ev w) \<and> (\<exists>m. nodes (final (build ev w)) = wired m)"
  proof (cases "build ev w")
    case (Inl ew)
    then have "build ev w = Inl (fst ew, snd ew)" by simp
    from build_raised_before_iterate [OF this assms] show ?thesis by (simp add: final_def)
  next
    case (Inr w')
    then show ?thesis using build_Inr [OF Inr] by (simp add: returned_def)
  qed
  have c3: "\<forall>liks.
        getitem (model_opts w) ''likelihoods'' = Inr liks \<and>
        (\<forall>M N D K sd w1. raises ev (InitModel M N D K liks sd) w1 \<noteq> None) \<longrightarrow>
        raised (runMOFA ev w) \<noteq> None \<and> Iterate \<notin> set (calls (final (runMOFA ev w)))"
  proof (intro allI impI, elim conjE)
    fix liks
    assume "getitem (model_opts w) ''likelihoods'' = Inr liks"
      and "\<forall>M N D K sd w1. raises ev (InitModel M N D K liks sd) w1 \<noteq> None"
    then have "\<exists>ew. build ev w = Inl ew" by (rule build_rejected)
    then show "raised (runMOFA ev w) \<noteq> None \<and> Iterate \<notin> set (calls (final (runMOFA ev w)))"
      using assms by (rule build_raised_run_raised)
  qed
  have c4: "\<forall>w1 k.
        run_steps [set_seed ev, sanity_checks ev, parse_data ev, building_banner, print_seed,
          init_nodes ev] w = Inr w1 \<and>
        k \<in> set [''Z'', ''Theta'', ''AlphaW'', ''SW'', ''Y'', ''Tau''] \<and> map_of (nodes w1) k = None \<longrightarrow>
        raised (runMOFA ev w) \<noteq> None \<and> Iterate \<notin> set (calls (final (runMOFA ev w)))"
  proof (intro allI impI, elim conjE)
    fix w1 k
    assume "run_steps [set_seed ev, sanity_checks ev, parse_data ev, building_banner, print_seed,
          init_nodes ev] w = Inr w1"
      and "k \<in> set [''Z'', ''Theta'', ''AlphaW'', ''SW'', ''Y'', ''Tau'']"
      and "map_of (nodes w1) k = None"
    then have "\<exists>ew. build ev w = Inl ew" by (rule build_missing_node)
    then show "raised (runMOFA ev w) \<noteq> None \<and> Iterate \<notin> set (calls (final (runMOFA ev w)))"
      using assms by (rule build_raised_run_raised)
  qed
  show ?thesis using c1 c2 c3 c4 by (intro conjI) (assumption+)
qed

theorem errors_while_building_end_the_run_witness:
  "(\<exists>w'. runMOFA spec_env foo_world = Inl (Raised ''unknown likelihood'', w') \<and>
         Iterate \<notin> set (calls w')) \<and>
   raised (runMOFA spec_env foo_world) \<noteq> None \<and>
   Iterate \<notin> set (calls (final (runMOFA spec_env foo_world))) \<and>
   raised (runMOFA spec_env half_world) \<noteq> None \<and>
   Iterate \<notin> set (calls (final (runMOFA spec_env half_world))) \<and>
   Iterate \<in> set (calls (final (runMOFA spec_env ok_world))) \<and>
   returned (build spec_env ok_world) \<and>
   (\<exists>m. nodes (final (build spec_env ok_world)) = wired m)"
proof -
  have cf: "calls foo_world = []" by (simp add: foo_world_def sample_world_def)
  have ch: "calls half_world = []" by (simp add: half_world_def sample_world_def)
  have co: "calls ok_world = []" by (simp add: ok_world_def sample_world_def)
  from foo_world_build obtain w1 where
    b1: "build spec_env foo_world = Inl (Raised ''unknown likelihood'', w1)" ..
  have p1: "\<exists>w'. runMOFA spec_env foo_world = Inl (Raised ''unknown likelihood'', w') \<and>
         Iterate \<notin> set (calls w')"
    using errors_while_building_end_the_run [OF cf, of spec_env] b1 by (intro exI [of _ w1]) blast
  have lf: "getitem (model_opts foo_world) ''likelihoods'' = Inr (PList [PStr ''foo''])"
    by (simp add: foo_world_def sample_world_def sample_model_opts_def)
  have rf: "\<forall>M N D K sd w1. raises spec_env (InitModel M N D K (PList [PStr ''foo'']) sd) w1 \<noteq> None"
    by (simp add: spec_env_def known_likelihoods_def)
  have p2: "raised (runMOFA spec_env foo_world) \<noteq> None \<and>
      Iterate \<notin> set (calls (final (runMOFA spec_env foo_world)))"
    using errors_while_building_end_the_run [OF cf, of spec_env] lf rf by blast
  obtain wn where
    n1: "run_steps [set_seed spec_env, sanity_checks spec_env, parse_data spec_env, building_banner,
       print_seed, init_nodes spec_env] half_world = Inr wn"
    and n2: "map_of (nodes wn) ''Theta'' = None"
    using half_world_nodes
    by (cases "run_steps [set_seed spec_env, sanity_checks spec_env, parse_data spec_env,
       building_banner, print_seed, init_nodes spec_env] half_world") auto
  have n3: "''Theta'' \<in> set [''Z'', ''Theta'', ''AlphaW'', ''SW'', ''Y'', ''Tau'']" by simp
  have p3: "raised (runMOFA spec_env half_world) \<noteq> None \<and>
      Iterate \<notin> set (calls (final (runMOFA spec_env half_world)))"
    using errors_while_building_end_the_run [OF ch, of spec_env] n1 n2 n3 by blast
  have t: "Iterate \<in> set (calls (final (runMOFA spec_env ok_world)))"
    using ok_world_trains by (cases "runMOFA spec_env ok_world") auto
  have p4: "returned (build spec_env ok_world) \<and> (\<exists>m. nodes (final (build spec_env ok_world)) = wired m)"
    using errors_while_building_end_the_run [OF co, of spec_env] t by blast
  show ?thesis using p1 p2 p3 t p4 by simp
qed

text \<open>
  C1 as stated fails: a configuration error is not always raised before training. The
  data options of the sample run without \<^verbatim>\<open>view_names\<close> are read at line 166 only, so
  \<open>runMOFA\<close> raises the KeyError after \<^verbatim>\<open>net.iterate()\<close> was called. And \<open>runMOFA\<close>
  itself checks no likelihood tag: with collaborators that check nothing, the run with
  the tag \<^verbatim>\<open>foo\<close> trains and returns.
\<close>

theorem missing_view_names_raises_after_iterate_counterexample:
  "raised (runMOFA spec_env no_view_names_world) = Some (KeyError ''view_names'') \<and>
   Iterate \<in> set (calls (final (runMOFA spec_env no_view_names_world))) \<and>
   returned (runMOFA lax_env foo_world) \<and>
   Iterate \<in> set (calls (final (runMOFA lax_env foo_world)))"
proof -
  have a: "raised (runMOFA spec_env no_view_names_world) = Some (KeyError ''view_names'') \<and>
      Iterate \<in> set (calls (final (runMOFA spec_env no_view_names_world)))"
    using no_view_names_eval
    by (cases "runMOFA spec_env no_view_names_world") (auto simp: raised_def)
  have b: "returned (runMOFA lax_env foo_world) \<and>
      Iterate \<in> set (calls (final (runMOFA lax_env foo_world)))"
    using lax_foo_eval by (cases "runMOFA lax_env foo_world") (auto simp: returned_def)
  show ?thesis using a b by simp
qed

text \<open>
  C2. For a sparsity option that is an array of numbers, the Theta step is decided by the
  set of its distinct values. When that set is \<open>{0}\<close> the step is the call
  \<^verbatim>\<open>init.initThetaConst(value=model_opts["initTheta"]['E'])\<close>. When it is \<open>{1}\<close>, and when
  it has more than one element, the step is the call of \<open>initThetaMixed\<close> with
  \<^verbatim>\<open>pa\<close>, \<^verbatim>\<open>pb\<close> read from \<^verbatim>\<open>model_opts["priorTheta"]\<close>, \<^verbatim>\<open>qa\<close>, \<^verbatim>\<open>qb\<close>, \<^verbatim>\<open>qE\<close> read
  from \<^verbatim>\<open>model_opts["initTheta"]\<close> and \<^verbatim>\<open>sparsity\<close> the sparsity option itself. The call
  is logged with these arguments, the step raises exactly when the initialiser does, and
  when it returns the registry holds the Theta node made by that initialiser. Two arrays
  with the same set of numbers give \<^verbatim>\<open>scipy.unique\<close> the same result.
\<close>

theorem theta_selected_by_distinct_values:
  assumes "getitem (model_opts w) ''sparsity'' = Inr sp" and "numbers sp = Some xs"
    and "getitem (model_opts w) ''initTheta'' = Inr it" and "getitem it ''E'' = Inr qE"
  shows
    "(set xs = {0} \<longrightarrow>
        calls (final (init_Theta ev w)) = calls w @ [Init ''initThetaConst'' [(''value'', qE)]] \<and>
        raised (init_Theta ev w) = raises ev (Init ''initThetaConst'' [(''value'', qE)]) w \<and>
        (returned (init_Theta ev w) \<longrightarrow>
           nodes (final (init_Theta ev w)) =
             AList.update ''Theta'' \<lparr>made_by = ''initThetaConst'', markov_blanket = []\<rparr> (nodes w))) \<and>
     (\<forall>pt pa pb qa qb.
        (set xs = {1} \<or> 1 < card (set xs)) \<and>
        getitem (model_opts w) ''priorTheta'' = Inr pt \<and>
        getitem pt ''a'' = Inr pa \<and> getitem pt ''b'' = Inr pb \<and>
        getitem it ''a'' = Inr qa \<and> getitem it ''b'' = Inr qb \<longrightarrow>
        calls (final (init_Theta ev w)) =
          calls w @ [Init ''initThetaMixed''
            [(''pa'', pa), (''pb'', pb), (''qa'', qa), (''qb'', qb), (''qE'', qE), (''sparsity'', sp)]] \<and>
        raised (init_Theta ev w) =
          raises ev (Init ''initThetaMixed''
            [(''pa'', pa), (''pb'', pb), (''qa'', qa), (''qb'', qb), (''qE'', qE), (''sparsity'', sp)]) w \<and>
        (returned (init_Theta ev w) \<longrightarrow>
           nodes (final (init_Theta ev w)) =
             AList.update ''Theta'' \<lparr>made_by = ''initThetaMixed'', markov_blanket = []\<rparr> (nodes w))) \<and>
     (\<forall>sp' ys. numbers sp' = Some ys \<and> set ys = set xs \<longrightarrow> np_unique ev sp' = np_unique ev sp)"
proof -
  note step = init_Theta_numbers [OF assms(1,2), of ev]
  have const: "set xs = {0} \<longrightarrow>
        calls (final (init_Theta ev w)) = calls w @ [Init ''initThetaConst'' [(''value'', qE)]] \<and>
        raised (init_Theta ev w) = raises ev (Init ''initThetaConst'' [(''value'', qE)]) w \<and>
        (returned (init_Theta ev w) \<longrightarrow>
           nodes (final (init_Theta ev w)) =
             AList.update ''Theta'' \<lparr>made_by = ''initThetaConst'', markov_blanket = []\<rparr> (nodes w))"
  proof
    assume "set xs = {0}"
    then have "init_Theta ev w = init_node ev ''initThetaConst'' ''Theta'' initThetaConst_args w"
      using step by (simp add: theta_init_zeros theta_args_def)
    then show "calls (final (init_Theta ev w)) = calls w @ [Init ''initThetaConst'' [(''value'', qE)]] \<and>
        raised (init_Theta ev w) = raises ev (Init ''initThetaConst'' [(''value'', qE)]) w \<and>
        (returned (init_Theta ev w) \<longrightarrow>
           nodes (final (init_Theta ev w)) =
             AList.update ''Theta'' \<lparr>made_by = ''initThetaConst'', markov_blanket = []\<rparr> (nodes w))"
      using init_node_call [OF initThetaConst_kwargs [OF assms(3,4)], where ev = ev and m = "''initThetaConst''" and n = "''Theta''"]
      by (simp add: fresh_def)
  qed
  have mixed: "\<forall>pt pa pb qa qb.
        (set xs = {1} \<or> 1 < card (set xs)) \<and>
        getitem (model_opts w) ''priorTheta'' = Inr pt \<and>
        getitem pt ''a'' = Inr pa \<and> getitem pt ''b'' = Inr pb \<and>
        getitem it ''a'' = Inr qa \<and> getitem it ''b'' = Inr qb \<longrightarrow>
        calls (final (init_Theta ev w)) =
          calls w @ [Init ''initThetaMixed''
            [(''pa'', pa), (''pb'', pb), (''qa'', qa), (''qb'', qb), (''qE'', qE), (''sparsity'', sp)]] \<and>
        raised (init_Theta ev w) =
          raises ev (Init ''initThetaMixed''
            [(''pa'', pa), (''pb'', pb), (''qa'', qa), (''qb'', qb), (''qE'', qE), (''sparsity'', sp)]) w \<and>
        (returned (init_Theta ev w) \<longrightarrow>
           nodes (final (init_Theta ev w)) =
             AList.update ''Theta'' \<lparr>made_by = ''initThetaMixed'', markov_blanket = []\<rparr> (nodes w))"
  proof (intro allI impI, elim conjE)
    fix pt pa pb qa qb
    assume s: "set xs = {1} \<or> 1 < card (set xs)"
      and l: "getitem (model_opts w) ''priorTheta'' = Inr pt" "getitem pt ''a'' = Inr pa"
        "getitem pt ''b'' = Inr pb" "getitem it ''a'' = Inr qa" "getitem it ''b'' = Inr qb"
    from s have "theta_init (map PReal (unique xs)) = Some ''initThetaMixed''"
      using theta_init_ones theta_init_several by blast
    then have "init_Theta ev w = init_node ev ''initThetaMixed'' ''Theta'' initThetaMixed_args w"
      using step by (simp add: theta_args_def)
    then show "calls (final (init_Theta ev w)) =
          calls w @ [Init ''initThetaMixed''
            [(''pa'', pa), (''pb'', pb), (''qa'', qa), (''qb'', qb), (''qE'', qE), (''sparsity'', sp)]] \<and>
        raised (init_Theta ev w) =
          raises ev (Init ''initThetaMixed''
            [(''pa'', pa), (''pb'', pb), (''qa'', qa), (''qb'', qb), (''qE'', qE), (''sparsity'', sp)]) w \<and>
        (returned (init_Theta ev w) \<longrightarrow>
           nodes (final (init_Theta ev w)) =
             AList.update ''Theta'' \<lparr>made_by = ''initThetaMixed'', markov_blanket = []\<rparr> (nodes w))"
      using init_node_call
        [OF initThetaMixed_kwargs [OF assms(1) l(1,2,3) assms(3) l(4,5) assms(4)],
          where ev = ev and m = "''initThetaMixed''" and n = "''Theta''"]
      by (simp add: fresh_def)
  qed
  have same: "\<forall>sp' ys. numbers sp' = Some ys \<and> set ys = set xs \<longrightarrow> np_unique ev sp' = np_unique ev sp"
    using np_unique_cong [OF assms(2)] by blast
  show ?thesis using const mixed same by (intro conjI) (assumption+)
qed

theorem theta_selected_by_distinct_values_witness:
  "calls (final (init_Theta spec_env (theta_world (PList [PList [PReal 0, PReal 0]])))) =
     [Init ''initThetaConst'' [(''value'', PReal 5)]] \<and>
   raised (init_Theta spec_env (theta_world (PList [PList [PReal 0, PReal 0]]))) = None \<and>
   calls (final (init_Theta spec_env (theta_world (PList [PList [PReal 1, PReal 1]])))) =
     [Init ''initThetaMixed''
        [(''pa'', PReal 1), (''pb'', PReal 2), (''qa'', PReal 3), (''qb'', PReal 4), (''qE'', PReal 5),
         (''sparsity'', PList [PList [PReal 1, PReal 1]])]] \<and>
   calls (final (init_Theta spec_env (theta_world (PList [PList [PReal 1, PReal 0]])))) =
     [Init ''initThetaMixed''
        [(''pa'', PReal 1), (''pb'', PReal 2), (''qa'', PReal 3), (''qb'', PReal 4), (''qE'', PReal 5),
         (''sparsity'', PList [PList [PReal 1, PReal 0]])]] \<and>
   np_unique spec_env (PList [PReal 0, PReal 1, PReal 1]) = np_unique spec_env (PList [PList [PReal 1, PReal 0]])"
proof -
  have sp: "getitem (model_opts (theta_world s)) ''sparsity'' = Inr s" for s
    by (simp add: theta_world_def sample_world_def)
  have it: "getitem (model_opts (theta_world s)) ''initTheta'' =
      Inr (PDict [(''a'', PReal 3), (''b'', PReal 4), (''E'', PReal 5)])" for s
    by (simp add: theta_world_def sample_world_def)
  have pt: "getitem (model_opts (theta_world s)) ''priorTheta'' =
      Inr (PDict [(''a'', PReal 1), (''b'', PReal 2)])" for s
    by (simp add: theta_world_def sample_world_def)
  have e: "getitem (PDict [(''a'', PReal 3), (''b'', PReal 4), (''E'', PReal 5)]) ''E'' = Inr (PReal 5)"
    by simp
  have c: "calls (theta_world s) = []" for s
    by (simp add: theta_world_def sample_world_def)
  have n0: "numbers (PList [PList [PReal 0, PReal 0]]) = Some [0, 0]" by (simp add: numbers_def)
  have n1: "numbers (PList [PList [PReal 1, PReal 1]]) = Some [1, 1]" by (simp add: numbers_def)
  have nm: "numbers (PList [PList [PReal 1, PReal 0]]) = Some [1, 0]" by (simp add: numbers_def)
  have nf: "numbers (PList [PReal 0, PReal 1, PReal 1]) = Some [0, 1, 1]" by (simp add: numbers_def)
  have r: "raises spec_env (Init m kws) w = None" for m kws w
    by (simp add: spec_env_def)
  have st: "set [0, 1, 1] = set [1, 0 :: real]" by auto
  have w0: "calls (final (init_Theta spec_env (theta_world (PList [PList [PReal 0, PReal 0]])))) =
       [Init ''initThetaConst'' [(''value'', PReal 5)]] \<and>
     raised (init_Theta spec_env (theta_world (PList [PList [PReal 0, PReal 0]]))) = None"
    using theta_selected_by_distinct_values [OF sp n0 it e, where ev = spec_env]
    by (simp add: c r)
  have w1: "calls (final (init_Theta spec_env (theta_world (PList [PList [PReal 1, PReal 1]])))) =
     [Init ''initThetaMixed''
        [(''pa'', PReal 1), (''pb'', PReal 2), (''qa'', PReal 3), (''qb'', PReal 4), (''qE'', PReal 5),
         (''sparsity'', PList [PList [PReal 1, PReal 1]])]]"
    using theta_selected_by_distinct_values [OF sp n1 it e, where ev = spec_env]
    by (simp add: pt c)
  have wm: "calls (final (init_Theta spec_env (theta_world (PList [PList [PReal 1, PReal 0]])))) =
     [Init ''initThetaMixed''
        [(''pa'', PReal 1), (''pb'', PReal 2), (''qa'', PReal 3), (''qb'', PReal 4), (''qE'', PReal 5),
         (''sparsity'', PList [PList [PReal 1, PReal 0]])]]"
    using theta_selected_by_distinct_values [OF sp nm it e, where ev = spec_env]
    by (simp add: pt c)
  have wu: "np_unique spec_env (PList [PReal 0, PReal 1, PReal 1]) =
      np_unique spec_env (PList [PList [PReal 1, PReal 0]])"
    by (rule theta_selected_by_distinct_values [OF sp nm it e, where ev = spec_env,
          THEN conjunct2, THEN conjunct2, rule_format, OF conjI [OF nf st]])
  show ?thesis using w0 w1 wm wu by simp
qed

text \<open>
  C3. With every entry of the sparsity array equal to one half, the Theta step returns
  the state it was given: nothing is raised and no initialiser is called (the
  \<^verbatim>\<open>if\<close>/\<^verbatim>\<open>elif\<close> of lines 98 to 107 has no \<^verbatim>\<open>else\<close>). \<open>runMOFA\<close> goes on to build
  the Y node and stops only at line 121, with the KeyError of \<^verbatim>\<open>nodes["Theta"]\<close>; the
  registry then holds Y and no Theta.
\<close>

theorem half_sparsity_is_not_rejected:
  "init_Theta spec_env half_world = Inr half_world \<and>
   raised (runMOFA spec_env half_world) = Some (KeyError ''Theta'') \<and>
   maker (final (runMOFA spec_env half_world)) ''Theta'' = None \<and>
   maker (final (runMOFA spec_env half_world)) ''Y'' = Some ''initY''"
proof (cases "runMOFA spec_env half_world")
  case (Inl ew)
  then have e: "fst ew = KeyError ''Theta''"
    and n: "map fst (nodes (snd ew)) = [''Z'', ''SW'', ''AlphaW'', ''Tau'', ''Y'']"
    and m: "map (\<lambda>p. made_by (snd p)) (nodes (snd ew)) =
          [''initZ'', ''initSW'', ''initAlphaW_mk'', ''initTau'', ''initY'']"
    using half_world_eval by simp_all
  from n m obtain a b c d e where "nodes (snd ew) = [(''Z'', a), (''SW'', b), (''AlphaW'', c), (''Tau'', d), (''Y'', e)]"
    and "made_by e = ''initY''"
    by (auto simp: map_eq_Cons_conv)
  then have "maker (snd ew) ''Theta'' = None" and "maker (snd ew) ''Y'' = Some ''initY''"
    by (simp_all add: maker_def)
  then show ?thesis using Inl e half_world_theta by (simp add: raised_def final_def)
next
  case (Inr w)
  then show ?thesis using half_world_eval by simp
qed

text \<open>
  C4. When lines 28 to 132 have returned, the registry holds the six nodes Z, SW,
  AlphaW, Tau, Theta and Y, and the Markov blankets attached are exactly
  Z: SW, Tau, Y; Theta: SW; AlphaW: SW; SW: Z, Tau, AlphaW, Y, Theta; Y: Z, SW, Tau;
  Tau: Z, SW, Y. The relation is cyclic: SW is in the blanket of Z and Z in that of SW.
\<close>

theorem markov_blankets_wired:
  assumes "build ev w = Inr w'"
  shows "set (map fst (nodes w')) = {''Z'', ''SW'', ''AlphaW'', ''Tau'', ''Theta'', ''Y''} \<and>
     neighbours w' ''Z'' = {''SW'', ''Tau'', ''Y''} \<and>
     neighbours w' ''Theta'' = {''SW''} \<and>
     neighbours w' ''AlphaW'' = {''SW''} \<and>
     neighbours w' ''SW'' = {''Z'', ''Tau'', ''AlphaW'', ''Y'', ''Theta''} \<and>
     neighbours w' ''Y'' = {''Z'', ''SW'', ''Tau''} \<and>
     neighbours w' ''Tau'' = {''Z'', ''SW'', ''Y''} \<and>
     ''SW'' \<in> neighbours w' ''Z'' \<and> ''Z'' \<in> neighbours w' ''SW''"
proof -
  from build_Inr [OF assms] obtain m where "nodes w' = wired m" ..
  then show ?thesis by (auto simp: neighbours_def wired_def)
qed

theorem markov_blankets_wired_witness:
  "\<exists>w'. build spec_env ok_world = Inr w' \<and>
     (set (map fst (nodes w')) = {''Z'', ''SW'', ''AlphaW'', ''Tau'', ''Theta'', ''Y''} \<and>
      neighbours w' ''Z'' = {''SW'', ''Tau'', ''Y''} \<and>
      neighbours w' ''Theta'' = {''SW''} \<and>
      neighbours w' ''AlphaW'' = {''SW''} \<and>
      neighbours w' ''SW'' = {''Z'', ''Tau'', ''AlphaW'', ''Y'', ''Theta''} \<and>
      neighbours w' ''Y'' = {''Z'', ''SW'', ''Tau''} \<and>
      neighbours w' ''Tau'' = {''Z'', ''SW'', ''Y''} \<and>
      ''SW'' \<in> neighbours w' ''Z'' \<and> ''Z'' \<in> neighbours w' ''SW'')"
proof -
  from ok_world_build obtain w' where b: "build spec_env ok_world = Inr w'" ..
  from conjI [OF b markov_blankets_wired [OF b]] show ?thesis by (rule exI [of _ w'])
qed

text \<open>
  C5. With every entry of the sparsity array equal to one half, the calls of the run
  are, by section: the seeding, \<open>makedirs\<close>, \<open>initModel\<close>, five initialisers (Z, SW,
  AlphaW, Tau, Y) and one \<open>addMarkovBlanket\<close>. The last call wires Z, and the registry
  holds five nodes: Z is wired although no Theta node has been made.
\<close>

theorem half_sparsity_wires_Z_without_Theta:
  "map phase (calls (final (runMOFA spec_env half_world))) = [0, 1, 3, 4, 4, 4, 4, 4, 5] \<and>
   last (calls (final (runMOFA spec_env half_world))) =
     AddMarkovBlanket ''Z'' [(''SW'', ''SW''), (''Tau'', ''Tau''), (''Y'', ''Y'')] \<and>
   map fst (nodes (final (runMOFA spec_env half_world))) = [''Z'', ''SW'', ''AlphaW'', ''Tau'', ''Y'']"
  using half_world_eval by (cases "runMOFA spec_env half_world") (simp_all add: final_def)

text \<open>
  C6, as amended. Whatever the options hold, when lines 28 to 132 have returned the
  AlphaW node of the registry is the one built by \<open>initAlphaW_mk\<close>, called with the
  entries \<open>a\<close>, \<open>b\<close> of \<^verbatim>\<open>model_opts["priorAlphaW"]\<close> and \<open>a\<close>, \<open>b\<close>, \<open>E\<close> of
  \<^verbatim>\<open>model_opts["initAlphaW"]\<close>.
\<close>

theorem alphaW_built_by_initAlphaW_mk:
  assumes "build ev w = Inr w'"
  shows "maker w' ''AlphaW'' = Some ''initAlphaW_mk'' \<and>
     (\<exists>kws. eval_args w initAlphaW_mk_args = Inr kws \<and> Init ''initAlphaW_mk'' kws \<in> set (calls w'))"
proof -
  define xs where "xs = take 8 (build_steps ev)"
  define ys where "ys = drop 9 (build_steps ev)"
  have split: "build_steps ev = xs @ [init_node ev ''initAlphaW_mk'' ''AlphaW'' initAlphaW_mk_args] @ ys"
    by (simp add: build_steps_def xs_def ys_def)
  have sx: "set xs \<subseteq> set (build_steps ev @ train_steps ev)"
    using set_take_subset [of 8 "build_steps ev"] by (auto simp: xs_def)
  have sy: "set ys \<subseteq> set (build_steps ev @ train_steps ev)"
    using set_drop_subset [of 9 "build_steps ev"] by (auto simp: ys_def)
  from assms have "run_steps (xs @ [init_node ev ''initAlphaW_mk'' ''AlphaW'' initAlphaW_mk_args] @ ys) w = Inr w'"
    by (simp only: build_flat split)
  then obtain wa where a: "run_steps xs w = Inr wa"
    and r: "run_steps ([init_node ev ''initAlphaW_mk'' ''AlphaW'' initAlphaW_mk_args] @ ys) wa = Inr w'"
    using run_steps_append_Inr by blast
  from r obtain wb where b: "init_node ev ''initAlphaW_mk'' ''AlphaW'' initAlphaW_mk_args wa = Inr wb"
    and y: "run_steps ys wb = Inr w'"
    by (cases "init_node ev ''initAlphaW_mk'' ''AlphaW'' initAlphaW_mk_args wa") auto
  from init_node_Inr [OF b] obtain kws where
    k: "eval_args wa initAlphaW_mk_args = Inr kws" and c: "calls wb = calls wa @ [Init ''initAlphaW_mk'' kws]"
    by blast
  have "advances w wa" using sx a by (rule steps_advance_Inr)
  then have k': "eval_args w initAlphaW_mk_args = Inr kws"
    using k eval_args_cong [of wa w] by (simp add: advances_def)
  have "advances wb w'" using sy y by (rule steps_advance_Inr)
  then have "Init ''initAlphaW_mk'' kws \<in> set (calls w')"
    using c by (auto simp: advances_def prefix_def)
  moreover from build_Inr [OF assms] obtain m where "nodes w' = wired m" ..
  then have "maker w' ''AlphaW'' = Some ''initAlphaW_mk''" by (simp add: maker_def wired_def)
  ultimately show ?thesis using k' by blast
qed

theorem alphaW_built_by_initAlphaW_mk_witness:
  "\<exists>w'. build spec_env (ard_world ''k'') = Inr w' \<and>
     (maker w' ''AlphaW'' = Some ''initAlphaW_mk'' \<and>
      (\<exists>kws. eval_args (ard_world ''k'') initAlphaW_mk_args = Inr kws \<and>
         Init ''initAlphaW_mk'' kws \<in> set (calls w')))"
proof -
  obtain w' where b: "build spec_env (ard_world ''k'') = Inr w'"
    using ard_world_eval by (cases "build spec_env (ard_world ''k'')") auto
  from conjI [OF b alphaW_built_by_initAlphaW_mk [OF b]] show ?thesis by (rule exI [of _ w'])
qed

text \<open>
  C6, as stated, fails: with the mode key set to \<open>k\<close> (one precision per factor) and
  with it set to \<open>m\<close> (one per view), lines 28 to 132 return and the AlphaW node is the
  one built by \<open>initAlphaW_mk\<close> both times.
\<close>

theorem ard_mode_is_not_read_counterexample:
  "returned (build spec_env (ard_world ''k'')) \<and>
   maker (final (build spec_env (ard_world ''k''))) ''AlphaW'' = Some ''initAlphaW_mk'' \<and>
   returned (build spec_env (ard_world ''m'')) \<and>
   maker (final (build spec_env (ard_world ''m''))) ''AlphaW'' = Some ''initAlphaW_mk''"
proof -
  have k: "returned (build spec_env (ard_world ''k'')) \<and>
      maker (final (build spec_env (ard_world ''k''))) ''AlphaW'' = Some ''initAlphaW_mk''"
    using ard_world_eval
    by (cases "build spec_env (ard_world ''k'')") (simp_all add: returned_def maker_def final_def)
  have m: "returned (build spec_env (ard_world ''m'')) \<and>
      maker (final (build spec_env (ard_world ''m''))) ''AlphaW'' = Some ''initAlphaW_mk''"
    using ard_world_eval
    by (cases "build spec_env (ard_world ''m'')") (simp_all add: returned_def maker_def final_def)
  from k m show ?thesis by simp
qed

text \<open>
  C8. The seed used is \<^verbatim>\<open>int(round(time()*1000) % 1e6)\<close> when \<open>runMOFA\<close> is called with
  \<open>None\<close> or with 0, and the seed given otherwise. The first external call of every run
  is \<^verbatim>\<open>s.random.seed\<close> with that seed; when the call returns, the generator holds that
  seed to the end of the run; and every run that gets past the sanity checks and the
  parsing of the data prints it.
\<close>

theorem seed_used_and_printed:
  "seed_used ev None = round (time ev * 1000) mod 1000000 \<and>
   seed_used ev (Some 0) = round (time ev * 1000) mod 1000000 \<and>
   (n \<noteq> 0 \<longrightarrow> seed_used ev (Some n) = n) \<and>
   (calls w = [] \<longrightarrow> take 1 (calls (final (runMOFA ev w))) = [RandomSeed (seed_used ev (seed w))]) \<and>
   (\<forall>w1. set_seed ev w = Inr w1 \<longrightarrow> rng (final (runMOFA ev w)) = Some (seed_used ev (seed w))) \<and>
   (\<forall>w3. run_steps [set_seed ev, sanity_checks ev, parse_data ev] w = Inr w3 \<longrightarrow>
      TextInt (''Setting random seed %i...'' @ nl) (seed_used ev (seed w))
        \<in> set (out (final (runMOFA ev w))))"
proof -
  define rest where "rest = tl (build_steps ev) @ train_steps ev"
  define rest' where "rest' = drop 5 (build_steps ev) @ train_steps ev"
  have flat: "runMOFA ev w = run_steps (set_seed ev # rest) w"
    by (simp add: runMOFA_flat rest_def build_steps_def)
  have sub: "set rest \<subseteq> set (build_steps ev @ train_steps ev)"
    by (auto simp: rest_def build_steps_def)
  have sub': "set rest' \<subseteq> set (build_steps ev @ train_steps ev)"
    by (auto simp: rest'_def build_steps_def)
  have sub2: "set rest \<subseteq> set (tl (build_steps ev) @ train_steps ev)"
    by (simp add: rest_def)
  have c1: "seed_used ev None = round (time ev * 1000) mod 1000000"
    by (simp add: seed_used_def clock_seed_def)
  have c2: "seed_used ev (Some 0) = round (time ev * 1000) mod 1000000"
    by (simp add: seed_used_def clock_seed_def)
  have c3: "n \<noteq> 0 \<longrightarrow> seed_used ev (Some n) = n"
    by (simp add: seed_used_def)
  have c4: "calls w = [] \<longrightarrow> take 1 (calls (final (runMOFA ev w))) = [RandomSeed (seed_used ev (seed w))]"
  proof
    assume e: "calls w = []"
    show "take 1 (calls (final (runMOFA ev w))) = [RandomSeed (seed_used ev (seed w))]"
    proof (cases "set_seed ev w")
      case (Inl ew)
      then show ?thesis using set_seed_calls [of ev w] e flat by (simp add: final_def)
    next
      case (Inr w1)
      have "advances w1 (final (run_steps rest w1))" using sub by (rule steps_advance)
      then have "prefix (calls w1) (calls (final (run_steps rest w1)))" by (simp add: advances_def)
      moreover have "calls w1 = [RandomSeed (seed_used ev (seed w))]"
        using set_seed_calls [of ev w] e Inr by simp
      ultimately show ?thesis using flat Inr by (auto simp: prefix_def)
    qed
  qed
  have c5: "\<forall>w1. set_seed ev w = Inr w1 \<longrightarrow> rng (final (runMOFA ev w)) = Some (seed_used ev (seed w))"
  proof (intro allI impI)
    fix w1 assume s: "set_seed ev w = Inr w1"
    have "keeps_seed w1 (final (run_steps rest w1))" using sub2 by (rule steps_keep_seed)
    then show "rng (final (runMOFA ev w)) = Some (seed_used ev (seed w))"
      using flat s set_seed_Inr [OF s] by (simp add: keeps_seed_def)
  qed
  have c6: "\<forall>w3. run_steps [set_seed ev, sanity_checks ev, parse_data ev] w = Inr w3 \<longrightarrow>
      TextInt (''Setting random seed %i...'' @ nl) (seed_used ev (seed w))
        \<in> set (out (final (runMOFA ev w)))"
  proof (intro allI impI)
    fix w3 assume r: "run_steps [set_seed ev, sanity_checks ev, parse_data ev] w = Inr w3"
    then obtain w1 where s: "set_seed ev w = Inr w1"
      and r1: "run_steps [sanity_checks ev, parse_data ev] w1 = Inr w3"
      by (cases "set_seed ev w") auto
    have "keeps_seed w1 (final (run_steps [sanity_checks ev, parse_data ev] w1))"
      by (rule steps_keep_seed [of _ ev]) (simp add: build_steps_def)
    then have sd: "seed w3 = Some (seed_used ev (seed w))"
      using r1 set_seed_Inr [OF s] by (simp add: keeps_seed_def)
    have "build_steps ev @ train_steps ev =
        [set_seed ev, sanity_checks ev, parse_data ev] @ (building_banner # print_seed # rest')"
      by (simp add: build_steps_def rest'_def)
    then have "runMOFA ev w = run_steps (building_banner # print_seed # rest') w3"
      using r by (simp only: runMOFA_flat run_steps_append sum.case)
    then show "TextInt (''Setting random seed %i...'' @ nl) (seed_used ev (seed w))
        \<in> set (out (final (runMOFA ev w)))"
      using seed_line_printed [OF sub' sd] by simp
  qed
  show ?thesis using c1 c2 c3 c4 c5 c6 by (intro conjI) (assumption+)
qed

theorem seed_used_and_printed_witness:
  "seed_used spec_env None = 123456 \<and>
   seed_used spec_env (Some 42) = 42 \<and>
   take 1 (calls (final (runMOFA spec_env clock_world))) = [RandomSeed 123456] \<and>
   rng (final (runMOFA spec_env clock_world)) = Some 123456 \<and>
   TextInt (''Setting random seed %i...'' @ nl) 123456 \<in> set (out (final (runMOFA spec_env clock_world)))"
proof -
  note t = seed_used_and_printed [of spec_env 42 clock_world]
  have sd: "seed clock_world = None" and cs: "calls clock_world = []"
    by (simp_all add: clock_world_def sample_world_def)
  obtain w1 where s1: "set_seed spec_env clock_world = Inr w1"
    using clock_world_eval returnedE by blast
  obtain w3 where s3:
    "run_steps [set_seed spec_env, sanity_checks spec_env, parse_data spec_env] clock_world = Inr w3"
    using clock_world_eval returnedE by blast
  have u: "seed_used spec_env None = 123456"
    using t [THEN conjunct1] spec_clock by simp
  have v: "seed_used spec_env (Some 42) = 42"
    using t [THEN conjunct2, THEN conjunct2, THEN conjunct1] by simp
  have c: "take 1 (calls (final (runMOFA spec_env clock_world))) = [RandomSeed 123456]"
    using t [THEN conjunct2, THEN conjunct2, THEN conjunct2, THEN conjunct1] cs sd u by simp
  have r: "rng (final (runMOFA spec_env clock_world)) = Some 123456"
    using t [THEN conjunct2, THEN conjunct2, THEN conjunct2, THEN conjunct2, THEN conjunct1] s1 sd u
    by simp
  have p: "TextInt (''Setting random seed %i...'' @ nl) 123456
      \<in> set (out (final (runMOFA spec_env clock_world)))"
    using t [THEN conjunct2, THEN conjunct2, THEN conjunct2, THEN conjunct2, THEN conjunct2] s3 sd u
    by simp
  from u v c r p show ?thesis by (intro conjI)
qed

text \<open>
  C9. When the step of lines 48 to 50 returns, \<open>maskData\<close> has been called exactly if
  \<open>data_opts\<close> holds one of the keys \<^verbatim>\<open>maskAtRandom\<close>, \<^verbatim>\<open>maskNSamples\<close> and some entry
  of \<^verbatim>\<open>data_opts['maskAtRandom']\<close> or of \<^verbatim>\<open>data_opts['maskNSamples']\<close> is truthy, and
  \<open>data\<close> is then what \<open>maskData\<close> returned; the same holds of the whole run, in which no
  other step calls \<open>maskData\<close>. When \<open>data_opts\<close> holds \<^verbatim>\<open>maskNSamples\<close> but not
  \<^verbatim>\<open>maskAtRandom\<close>, the step raises KeyError on \<^verbatim>\<open>maskAtRandom\<close>; \<open>runMOFA\<close> then
  raises with no call of the model construction made, and the error is that KeyError
  whenever the seeding and the sanity checks have returned.
\<close>

theorem maskData_applied_iff:
  "(\<forall>w'. parse_data ev w = Inr w' \<and> MaskData \<notin> set (calls w) \<longrightarrow>
       (MaskData \<in> set (calls w') \<longleftrightarrow> mask_requested (data_opts w))) \<and>
   (\<forall>w'. parse_data ev w = Inr w' \<and> mask_requested (data_opts w) \<longrightarrow>
       data w' = maskData ev (data w) (data_opts w)) \<and>
   (\<forall>w2 w3. calls w = [] \<and> run_steps [set_seed ev, sanity_checks ev] w = Inr w2 \<and>
       parse_data ev w2 = Inr w3 \<longrightarrow>
       (MaskData \<in> set (calls (final (runMOFA ev w))) \<longleftrightarrow> mask_requested (data_opts w))) \<and>
   (has_key (data_opts w) ''maskNSamples'' \<and> \<not> has_key (data_opts w) ''maskAtRandom'' \<longrightarrow>
      parse_data ev w = Inl (KeyError ''maskAtRandom'', w) \<and>
      (calls w = [] \<longrightarrow>
         raised (runMOFA ev w) \<noteq> None \<and>
         list_all (\<lambda>c. phase c < 3) (calls (final (runMOFA ev w)))) \<and>
      (\<forall>w2. run_steps [set_seed ev, sanity_checks ev] w = Inr w2 \<longrightarrow>
         runMOFA ev w = Inl (KeyError ''maskAtRandom'', w2)))"
proof -
  define rest where "rest = drop 3 (build_steps ev) @ train_steps ev"
  have split: "build_steps ev @ train_steps ev =
      [set_seed ev, sanity_checks ev, parse_data ev] @ rest"
    by (simp add: build_steps_def rest_def)
  have c1: "\<forall>w'. parse_data ev w = Inr w' \<and> MaskData \<notin> set (calls w) \<longrightarrow>
       (MaskData \<in> set (calls w') \<longleftrightarrow> mask_requested (data_opts w))"
    using parse_data_masks_iff by blast
  have c2: "\<forall>w'. parse_data ev w = Inr w' \<and> mask_requested (data_opts w) \<longrightarrow>
       data w' = maskData ev (data w) (data_opts w)"
    using parse_data_masked by blast
  have cr: "\<forall>w2 w3. calls w = [] \<and> run_steps [set_seed ev, sanity_checks ev] w = Inr w2 \<and>
       parse_data ev w2 = Inr w3 \<longrightarrow>
       (MaskData \<in> set (calls (final (runMOFA ev w))) \<longleftrightarrow> mask_requested (data_opts w))"
    using runMOFA_masks_iff by blast
  have c3: "parse_data ev w = Inl (KeyError ''maskAtRandom'', w) \<and>
      (calls w = [] \<longrightarrow>
         raised (runMOFA ev w) \<noteq> None \<and>
         list_all (\<lambda>c. phase c < 3) (calls (final (runMOFA ev w)))) \<and>
      (\<forall>w2. run_steps [set_seed ev, sanity_checks ev] w = Inr w2 \<longrightarrow>
         runMOFA ev w = Inl (KeyError ''maskAtRandom'', w2))"
    if k: "has_key (data_opts w) ''maskNSamples''" "\<not> has_key (data_opts w) ''maskAtRandom''"
  proof (intro conjI impI allI)
    show "parse_data ev w = Inl (KeyError ''maskAtRandom'', w)"
      using k by (rule parse_data_KeyError)
    have later: "runMOFA ev w = Inl (KeyError ''maskAtRandom'', w2)"
      if r: "run_steps [set_seed ev, sanity_checks ev] w = Inr w2" for w2
    proof -
      have "advances w w2"
        by (rule steps_advance_Inr [OF _ r, of ev]) (simp add: build_steps_def)
      then have "data_opts w2 = data_opts w" by (simp add: advances_def)
      then have "parse_data ev w2 = Inl (KeyError ''maskAtRandom'', w2)"
        using k parse_data_KeyError [of w2 ev] by simp
      then have "run_steps [set_seed ev, sanity_checks ev, parse_data ev] w =
          Inl (KeyError ''maskAtRandom'', w2)"
        using r run_steps_append [of "[set_seed ev, sanity_checks ev]" "[parse_data ev]" w]
        by simp
      then show ?thesis
        by (simp only: runMOFA_flat split run_steps_append sum.case)
    qed
    show "runMOFA ev w = Inl (KeyError ''maskAtRandom'', w2)"
      if "run_steps [set_seed ev, sanity_checks ev] w = Inr w2" for w2
      using that by (rule later)
    have front: "\<exists>ew. run_steps [set_seed ev, sanity_checks ev, parse_data ev] w = Inl ew"
    proof (cases "run_steps [set_seed ev, sanity_checks ev] w")
      case (Inl ew)
      then show ?thesis
        using run_steps_append [of "[set_seed ev, sanity_checks ev]" "[parse_data ev]" w] by simp
    next
      case (Inr w2)
      have "advances w w2"
        by (rule steps_advance_Inr [OF _ Inr, of ev]) (simp add: build_steps_def)
      then have "data_opts w2 = data_opts w" by (simp add: advances_def)
      then have "parse_data ev w2 = Inl (KeyError ''maskAtRandom'', w2)"
        using k parse_data_KeyError [of w2 ev] by simp
      then show ?thesis
        using Inr run_steps_append [of "[set_seed ev, sanity_checks ev]" "[parse_data ev]" w]
        by simp
    qed
    then obtain ew where f: "run_steps [set_seed ev, sanity_checks ev, parse_data ev] w = Inl ew" ..
    have run: "runMOFA ev w = Inl ew"
      using f by (simp only: runMOFA_flat split run_steps_append sum.case)
    show "raised (runMOFA ev w) \<noteq> None" using run by (simp add: raised_def)
    show "list_all (\<lambda>c. phase c < 3) (calls (final (runMOFA ev w)))" if e: "calls w = []"
    proof -
      have "ordered_upto 0 w" using e by (simp add: ordered_upto_def)
      then have "ordered_upto 2 (final (run_steps [set_seed ev, sanity_checks ev, parse_data ev] w))"
        by (rule ordered_front)
      then have "ordered_upto 2 (final (runMOFA ev w))" using f run by simp
      then show ?thesis by (auto simp: ordered_upto_def list_all_iff)
    qed
  qed
  show ?thesis using c1 c2 cr c3 by blast
qed

theorem maskData_applied_iff_witness:
  "parse_data spec_env nsamples_world = Inl (KeyError ''maskAtRandom'', nsamples_world) \<and>
   raised (runMOFA spec_env nsamples_world) = Some (KeyError ''maskAtRandom'') \<and>
   MaskData \<in> set (calls (final (parse_data spec_env masking_world))) \<and>
   data (final (parse_data spec_env masking_world)) = sample_data \<and>
   MaskData \<in> set (calls (final (runMOFA spec_env masking_world)))"
proof -
  note t = maskData_applied_iff [of spec_env nsamples_world]
  note m = maskData_applied_iff [of spec_env masking_world]
  have k: "has_key (data_opts nsamples_world) ''maskNSamples'' \<and>
      \<not> has_key (data_opts nsamples_world) ''maskAtRandom''"
    by (simp add: nsamples_world_def sample_world_def nsamples_opts_def)
  obtain w2 where s2: "run_steps [set_seed spec_env, sanity_checks spec_env] nsamples_world = Inr w2"
    using nsamples_world_eval returnedE by blast
  have a: "parse_data spec_env nsamples_world = Inl (KeyError ''maskAtRandom'', nsamples_world)"
    using t [THEN conjunct2, THEN conjunct2, THEN conjunct2] k by blast
  have "runMOFA spec_env nsamples_world = Inl (KeyError ''maskAtRandom'', w2)"
    using t [THEN conjunct2, THEN conjunct2, THEN conjunct2] k s2 by blast
  then have b: "raised (runMOFA spec_env nsamples_world) = Some (KeyError ''maskAtRandom'')"
    by (simp add: raised_def)
  obtain w' where p: "parse_data spec_env masking_world = Inr w'"
    using nsamples_world_eval returnedE by blast
  have q: "mask_requested (data_opts masking_world)"
    by (simp add: mask_requested_def any_entry_def masking_world_def sample_world_def masking_opts_def)
  have n: "MaskData \<notin> set (calls masking_world)" and e: "calls masking_world = []"
    by (simp_all add: masking_world_def sample_world_def)
  have c: "MaskData \<in> set (calls (final (parse_data spec_env masking_world)))"
    using m [THEN conjunct1] p q n by simp
  have "data w' = maskData spec_env (data masking_world) (data_opts masking_world)"
    using m [THEN conjunct2, THEN conjunct1] p q by blast
  then have d: "data (final (parse_data spec_env masking_world)) = sample_data"
    using p by (simp add: spec_env_def masking_world_def sample_world_def)
  obtain v3 where "run_steps ([set_seed spec_env, sanity_checks spec_env] @ [parse_data spec_env])
      masking_world = Inr v3"
    using masking_world_eval returnedE by fastforce
  then obtain v2 where v2: "run_steps [set_seed spec_env, sanity_checks spec_env] masking_world = Inr v2"
    and "run_steps [parse_data spec_env] v2 = Inr v3"
    using run_steps_append_Inr by blast
  then have v3: "parse_data spec_env v2 = Inr v3" by (simp split: sum.splits)
  have f: "MaskData \<in> set (calls (final (runMOFA spec_env masking_world)))"
    using m [THEN conjunct2, THEN conjunct2, THEN conjunct1] e v2 v3 q by blast
  from a b c d f show ?thesis by (intro conjI)
qed

text \<open>
  C10. The sanity checks return the state unchanged when the directory of
  \<^verbatim>\<open>data_opts["outfile"]\<close> exists; otherwise they print the notice, call \<open>makedirs\<close>, and
  the directory exists afterwards; nothing else changes. Whether they return or raise,
  the data, the three option dictionaries, the seed, the generator and the registry are
  as before. In \<open>runMOFA\<close> they run right after the seeding, on the data as given and
  before any node is made; parsing and model construction follow only when they have
  returned, and the calls of every run are in the order of the sections.
\<close>

theorem sanity_checks_only_make_the_directory:
  "(\<forall>p w'. getitem (data_opts w) ''outfile'' = Inr (PStr p) \<and> sanity_checks ev w = Inr w' \<longrightarrow>
       (if dirname p \<in> fs w then w' = w
        else w' = w\<lparr>out := out w @ [Text ''Output directory does not exist, creating it...''],
                    calls := calls w @ [MakeDirs (dirname p)],
                    fs := insert (dirname p) (fs w)\<rparr>)) \<and>
   data (final (sanity_checks ev w)) = data w \<and>
   data_opts (final (sanity_checks ev w)) = data_opts w \<and>
   model_opts (final (sanity_checks ev w)) = model_opts w \<and>
   train_opts (final (sanity_checks ev w)) = train_opts w \<and>
   seed (final (sanity_checks ev w)) = seed w \<and>
   rng (final (sanity_checks ev w)) = rng w \<and>
   nodes (final (sanity_checks ev w)) = nodes w \<and>
   (\<forall>w1. set_seed ev w = Inr w1 \<longrightarrow>
      data w1 = data w \<and> nodes w1 = nodes w \<and>
      calls w1 = calls w @ [RandomSeed (seed_used ev (seed w))] \<and>
      runMOFA ev w =
        (case sanity_checks ev w1 of
           Inl ew \<Rightarrow> Inl ew
         | Inr w2 \<Rightarrow>
             run_steps [parse_data ev, define_model ev, add_nodes_to_network ev, start_training ev,
               save_results ev] w2)) \<and>
   (calls w = [] \<longrightarrow> sorted (map phase (calls (final (runMOFA ev w)))))"
proof -
  have c1: "\<forall>p w'. getitem (data_opts w) ''outfile'' = Inr (PStr p) \<and> sanity_checks ev w = Inr w' \<longrightarrow>
       (if dirname p \<in> fs w then w' = w
        else w' = w\<lparr>out := out w @ [Text ''Output directory does not exist, creating it...''],
                    calls := calls w @ [MakeDirs (dirname p)],
                    fs := insert (dirname p) (fs w)\<rparr>)"
    using sanity_checks_Inr by blast
  have c3: "\<forall>w1. set_seed ev w = Inr w1 \<longrightarrow>
      data w1 = data w \<and> nodes w1 = nodes w \<and>
      calls w1 = calls w @ [RandomSeed (seed_used ev (seed w))] \<and>
      runMOFA ev w =
        (case sanity_checks ev w1 of
           Inl ew \<Rightarrow> Inl ew
         | Inr w2 \<Rightarrow>
             run_steps [parse_data ev, define_model ev, add_nodes_to_network ev, start_training ev,
               save_results ev] w2)"
  proof (intro allI impI)
    fix w1 assume s: "set_seed ev w = Inr w1"
    have "calls w1 = calls w @ [RandomSeed (seed_used ev (seed w))]"
      using set_seed_calls [of ev w] s by simp
    then show "data w1 = data w \<and> nodes w1 = nodes w \<and>
      calls w1 = calls w @ [RandomSeed (seed_used ev (seed w))] \<and>
      runMOFA ev w =
        (case sanity_checks ev w1 of
           Inl ew \<Rightarrow> Inl ew
         | Inr w2 \<Rightarrow>
             run_steps [parse_data ev, define_model ev, add_nodes_to_network ev, start_training ev,
               save_results ev] w2)"
      using set_seed_Inr [OF s] runMOFA_after_seed [OF s] by simp
  qed
  have c4: "calls w = [] \<longrightarrow> sorted (map phase (calls (final (runMOFA ev w))))"
  proof
    assume "calls w = []"
    then have "ordered_upto 0 w" by (simp add: ordered_upto_def)
    then have "ordered_upto 8 (final (runMOFA ev w))" by (rule ordered_runMOFA)
    then show "sorted (map phase (calls (final (runMOFA ev w))))" by (simp add: ordered_upto_def)
  qed
  show ?thesis using c1 sanity_checks_frame [of ev w] c3 c4 by (intro conjI) blast+
qed

theorem sanity_checks_only_make_the_directory_witness:
  "sanity_checks spec_env ok_world =
     Inr (ok_world\<lparr>out := [Text ''Output directory does not exist, creating it...''],
                   calls := [MakeDirs ''/tmp/out''],
                   fs := {''/tmp/out'', ''/tmp''}\<rparr>) \<and>
   sorted (map phase (calls (final (runMOFA spec_env ok_world))))"
proof -
  note t = sanity_checks_only_make_the_directory [of ok_world spec_env]
  obtain w' where s: "sanity_checks spec_env ok_world = Inr w'"
    using ok_world_sanity returnedE by blast
  have g: "getitem (data_opts ok_world) ''outfile'' = Inr (PStr ''/tmp/out/model.h5'')"
    by (simp add: ok_world_def sample_world_def sample_data_opts_def)
  have f: "fs ok_world = {''/tmp''}" "out ok_world = []" "calls ok_world = []"
    by (simp_all add: ok_world_def sample_world_def)
  have "if dirname ''/tmp/out/model.h5'' \<in> fs ok_world then w' = ok_world
        else w' = ok_world\<lparr>out := out ok_world @ [Text ''Output directory does not exist, creating it...''],
                    calls := calls ok_world @ [MakeDirs (dirname ''/tmp/out/model.h5'')],
                    fs := insert (dirname ''/tmp/out/model.h5'') (fs ok_world)\<rparr>"
    using t [THEN conjunct1] g s by blast
  then have a: "sanity_checks spec_env ok_world =
     Inr (ok_world\<lparr>out := [Text ''Output directory does not exist, creating it...''],
                   calls := [MakeDirs ''/tmp/out''],
                   fs := {''/tmp/out'', ''/tmp''}\<rparr>)"
    using s f by (simp add: dirname_sample)
  have b: "sorted (map phase (calls (final (runMOFA spec_env ok_world))))"
    using t f(3) by blast
  from a b show ?thesis by (intro conjI)
qed

end
